theory Spec2Isabelle
  imports Main "HOL-Library.Word"
begin

unbundle bit_operations_syntax

section \<open>Data model\<close>

subsection \<open>Worker states\<close>

text \<open>
  The constants of package \<^verbatim>\<open>worker\<close> that \<^verbatim>\<open>static_pool.go\<close> and
  \<^verbatim>\<open>worker_watcher.go\<close> name. Their declaration (an \<^verbatim>\<open>int64\<close> enumeration) is
  not among the sources at hand.
\<close>

text \<open>Modelled from the spec: the declaration of the worker state constants. The spec
  lists the statuses Inactive, Ready, Working, Invalid, Stopping, Stopped, Killing,
  Destroyed, Errored and MaxJobsReached; these are also exactly the names the two source
  files use.\<close>

datatype status =
    StateInactive
  | StateReady
  | StateWorking
  | StateInvalid
  | StateStopping
  | StateKilling
  | StateDestroyed
  | StateMaxJobsReached
  | StateStopped
  | StateErrored

subsection \<open>Errors\<close>

text \<open>
  Errors of the library \<^verbatim>\<open>github.com/spiral/errors\<close>: an error carries an operation, a
  kind and an inner error. \<^verbatim>\<open>errors.E(op, kind, err)\<close> is \<open>E op kind err\<close> (kind
  \<open>Undefined\<close> when none is passed), \<^verbatim>\<open>errors.E(op, kind)\<close> is \<open>E0 op kind\<close>,
  \<^verbatim>\<open>errors.Str\<close> and errors of other packages are \<open>Str\<close>, and
  \<^verbatim>\<open>errors.Errorf(format, errs...)\<close> is \<open>Errorf format errs\<close>.
\<close>

datatype kind =
    Undefined
  | ExecTTL
  | SoftJob
  | Network
  | WatcherStopped
  | NoFreeWorkers
  | WorkerAllocate
  | Decode

datatype err =
    Str string
  | E0 string kind
  | E string kind err
  | Errorf string "err list"

text \<open>\<^verbatim>\<open>errors.Is(kind, err)\<close>: the outermost kind that is set decides.\<close>

fun Is :: "kind \<Rightarrow> err \<Rightarrow> bool" where
  "Is k (Str m) = False"
| "Is k (E0 op' k') = (k' \<noteq> Undefined \<and> k' = k)"
| "Is k (E op' k' e) = (if k' \<noteq> Undefined then k' = k else Is k e)"
| "Is k (Errorf f es) = False"

subsection \<open>Payloads and configuration\<close>

record payload =
  Context :: string
  Body :: string

text \<open>\<^verbatim>\<open>const StopRequest = "{\"stop\":true}"\<close>\<close>

definition StopRequest :: string where
  "StopRequest = [CHR ''{'', CHR 0x22, CHR ''s'', CHR ''t'', CHR ''o'', CHR ''p'', CHR 0x22,
     CHR '':'', CHR ''t'', CHR ''r'', CHR ''u'', CHR ''e'', CHR ''}'']"

text \<open>The fields of \<^verbatim>\<open>Config\<close> the pool reads. Durations are in milliseconds.\<close>

record config =
  Debug :: bool
  NumWorkers :: "64 word"
  MaxJobs :: "64 word"
  AllocateTimeout :: int

subsection \<open>Workers, events and the watcher\<close>

text \<open>
  A worker handle is a reference \<open>wref\<close> into a store of worker objects; two handles may
  report the same pid. The fields are what \<^verbatim>\<open>Pid()\<close>, \<^verbatim>\<open>State().Value()\<close> and
  \<^verbatim>\<open>State().NumExecs()\<close> read.
\<close>

type_synonym wref = nat

record worker =
  pid :: int
  state :: status
  num_execs :: "64 word"

datatype event_name =
    EventWorkerError
  | EventWorkerDestruct
  | EventWorkerConstruct
  | EventWorkerProcessExit
  | EventExecTTL
  | EventNoFreeWorkers

text \<open>\<^verbatim>\<open>events.WorkerEvent{Event, Worker, Payload}\<close> and
  \<^verbatim>\<open>events.PoolEvent{Event, Payload, Error}\<close>; an absent field is \<open>None\<close>.\<close>

datatype event =
    WorkerEvent event_name "wref option" "err option"
  | PoolEvent event_name "wref option" "err option"

text \<open>
  Calls that leave the two source files are recorded, in order: the methods of a worker
  handle (\<open>CallKill\<close>, \<open>CallStop\<close>, \<open>CallExec\<close>, \<open>CallExecTTL\<close>), the event bus
  (\<open>EventPush\<close>), the container (\<open>CallPush\<close>, \<open>CallDestroy\<close>), the worker factory
  (\<open>CallSpawn\<close>) and the start of a wait task (\<open>GoWait\<close>). \<open>CallRelease\<close> marks an entry
  into \<^verbatim>\<open>workerWatcher.Release\<close>.
\<close>

datatype effect =
    CallKill wref
  | CallStop wref
  | CallExec wref payload
  | CallExecTTL wref payload
  | CallPush wref
  | CallDestroy
  | CallSpawn
  | CallRelease wref
  | EventPush event
  | GoWait wref

text \<open>
  The state the pool and the watcher work on: the worker objects, the container (a queue
  and its \<open>destroy\<close> flag), the fields \<^verbatim>\<open>workers\<close>, \<^verbatim>\<open>numWorkers\<close> and
  \<^verbatim>\<open>allocateTimeout\<close> of \<^verbatim>\<open>workerWatcher\<close>, its mutex, the calls made so far, and the
  number of workers requested from the factory so far.

  The mutex is the \<^verbatim>\<open>sync.RWMutex\<close> embedded in \<^verbatim>\<open>workerWatcher\<close>. The operations run
  one at a time here, so a mutex that is held when an operation asks for it stays held:
  \<open>locked\<close> says that it is. Every critical section of the watcher gives the mutex back
  (\<^verbatim>\<open>Remove\<close> by its deferred \<^verbatim>\<open>Unlock\<close>, \<^verbatim>\<open>Allocate\<close> around its append, \<^verbatim>\<open>Destroy\<close> at
  its start and on a tick that goes round) but one: \<^verbatim>\<open>Destroy\<close> returns from its last
  tick without \<^verbatim>\<open>ww.Unlock()\<close>.
\<close>

record world =
  heap :: "wref \<Rightarrow> worker"
  container :: "wref list"
  destroy :: bool
  workers :: "wref list"
  numWorkers :: "64 word"
  allocateTimeout :: int
  trace :: "effect list"
  spawned :: nat
  locked :: bool

text \<open>What a worker's \<^verbatim>\<open>Exec\<close> gives: a reply, or an error and the state the worker
  is left in.\<close>

datatype exec_out = Reply payload | Failure err status

text \<open>
  The collaborators outside the two source files: the reply of a worker (by handle, by
  the number of executions so far, and by payload), the results of \<^verbatim>\<open>Stop\<close> and
  \<^verbatim>\<open>Kill\<close>, the result of the n-th call of the worker factory, the number of \<^verbatim>\<open>Pop\<close>s
  a context with a given timeout lets through, and which case a \<^verbatim>\<open>select\<close> takes when the
  timer and the ticker of \<^verbatim>\<open>Allocate\<close> are ready together.
\<close>

record env =
  exec_reply :: "wref \<Rightarrow> 64 word \<Rightarrow> payload \<Rightarrow> exec_out"
  exec_ttl_reply :: "nat \<Rightarrow> wref \<Rightarrow> 64 word \<Rightarrow> payload \<Rightarrow> exec_out"
  stop_result :: "wref \<Rightarrow> err option"
  kill_result :: "wref \<Rightarrow> err option"
  spawn :: "nat \<Rightarrow> err + wref"
  pops_within :: "int \<Rightarrow> nat"
  tick_first :: "int \<Rightarrow> bool"

section \<open>Worker handles and the event bus\<close>

definition Pid :: "world \<Rightarrow> wref \<Rightarrow> int" where
  "Pid s w = pid (heap s w)"

definition State_Value :: "world \<Rightarrow> wref \<Rightarrow> status" where
  "State_Value s w = state (heap s w)"

definition NumExecs :: "world \<Rightarrow> wref \<Rightarrow> 64 word" where
  "NumExecs s w = num_execs (heap s w)"

definition State_Set :: "wref \<Rightarrow> status \<Rightarrow> world \<Rightarrow> world" where
  "State_Set w v s = s\<lparr>heap := (heap s)(w := (heap s w)\<lparr>state := v\<rparr>)\<rparr>"

definition record_call :: "effect \<Rightarrow> world \<Rightarrow> world" where
  "record_call c s = s\<lparr>trace := trace s @ [c]\<rparr>"

text \<open>\<^verbatim>\<open>Kill\<close> and \<^verbatim>\<open>Stop\<close> belong to the worker handle: the call is recorded, the
  status is left as the caller set it.\<close>

definition Kill :: "wref \<Rightarrow> world \<Rightarrow> world" where
  "Kill w s = record_call (CallKill w) s"

definition Stop :: "wref \<Rightarrow> world \<Rightarrow> world" where
  "Stop w s = record_call (CallStop w) s"

definition events_Push :: "event \<Rightarrow> world \<Rightarrow> world" where
  "events_Push ev s = record_call (EventPush ev) s"

section \<open>The container\<close>

text \<open>Modelled from the spec: the container behind the \<^verbatim>\<open>Vector\<close> interface
  (\<^verbatim>\<open>worker_watcher/container/channel\<close>), which is not among the sources. Push: "if
  destroyed flag is set, the worker is killed and dropped; otherwise enqueued". Pop:
  "returns WatcherStopped if destroyed, Timeout on deadline, otherwise a worker handle";
  the deadline has passed when the context lets no further Pop through, and an empty
  queue is waited on until the deadline. The error on the deadline has the kind
  NoFreeWorkers, the kind \<^verbatim>\<open>takeWorker\<close> tests for ("we can't get worker from the
  stack during the allocate timeout"). Destroy "sets the monotonic flag".\<close>

definition container_Push :: "wref \<Rightarrow> world \<Rightarrow> world" where
  "container_Push w s =
     (let s1 = record_call (CallPush w) s in
      if destroy s1 then Kill w s1 else s1\<lparr>container := container s1 @ [w]\<rparr>)"

definition container_Pop :: "nat \<Rightarrow> world \<Rightarrow> (err + wref) \<times> world" where
  "container_Pop ctx s =
     (if destroy s then (Inl (E0 '''' WatcherStopped), s)
      else if ctx = 0 then (Inl (E '''' NoFreeWorkers (Str ''context deadline exceeded'')), s)
      else (case container s of
              [] \<Rightarrow> (Inl (E '''' NoFreeWorkers (Str ''context deadline exceeded'')), s)
            | w # ws \<Rightarrow> (Inr w, s\<lparr>container := ws\<rparr>)))"

definition container_Destroy :: "world \<Rightarrow> world" where
  "container_Destroy s = (record_call CallDestroy s)\<lparr>destroy := True\<rparr>"

section \<open>The worker watcher\<close>

subsection \<open>Release and Remove\<close>

definition Release :: "wref \<Rightarrow> world \<Rightarrow> world" where
  "Release w s =
     (let s1 = record_call (CallRelease w) s in
      case State_Value s1 w of
        StateReady \<Rightarrow> container_Push w s1
      | _ \<Rightarrow> Kill w s1)"

text \<open>The loop of \<^verbatim>\<open>Remove\<close>: the slice without its first entry of the given pid, or
  \<open>None\<close> when the loop ends without a match.\<close>

fun remove_loop :: "(wref \<Rightarrow> int) \<Rightarrow> int \<Rightarrow> wref list \<Rightarrow> wref list option" where
  "remove_loop pidf p [] = None"
| "remove_loop pidf p (x # xs) =
     (if pidf x = p then Some xs
      else (case remove_loop pidf p xs of None \<Rightarrow> None | Some ys \<Rightarrow> Some (x # ys)))"

text \<open>\<^verbatim>\<open>Remove\<close>, between its \<^verbatim>\<open>ww.Lock()\<close> and its deferred \<^verbatim>\<open>ww.Unlock()\<close>.\<close>

definition Remove :: "wref \<Rightarrow> world \<Rightarrow> world" where
  "Remove wb s =
     (case remove_loop (Pid s) (Pid s wb) (workers s) of
        None \<Rightarrow> s
      | Some ws \<Rightarrow> Kill wb (s\<lparr>workers := ws\<rparr>))"

text \<open>A call \<^verbatim>\<open>ww.Remove(wb)\<close>, its first line \<^verbatim>\<open>ww.Lock()\<close> included: \<open>None\<close> when
  the mutex is held, and the call does not get past that line.\<close>

definition Remove_locking :: "wref \<Rightarrow> world \<Rightarrow> world option" where
  "Remove_locking wb s = (if locked s then None else Some (Remove wb s))"

subsection \<open>Take\<close>

text \<open>The error branch after a failed \<^verbatim>\<open>Pop\<close>, the same at both places of
  \<^verbatim>\<open>Take\<close>.\<close>

definition Take_error :: "err \<Rightarrow> err" where
  "Take_error e =
     (if Is WatcherStopped e then E0 ''worker_watcher_get_free_worker'' WatcherStopped
      else E ''worker_watcher_get_free_worker'' Undefined e)"

text \<open>
  One pass through the body of the \<^verbatim>\<open>for\<close> loop of \<^verbatim>\<open>Take\<close>: \<open>Inl r\<close> when the
  body returns \<open>r\<close>, \<open>Inr ()\<close> when it goes round again. The \<^verbatim>\<open>switch\<close> has no default:
  a state it does not list leaves the switch and the loop goes round.
\<close>

definition Take_body :: "nat \<Rightarrow> world \<Rightarrow> ((err + wref) + unit) \<times> world" where
  "Take_body ctx s =
     (case container_Pop ctx s of
        (Inl e, s1) \<Rightarrow> (Inl (Inl (Take_error e)), s1)
      | (Inr w, s1) \<Rightarrow>
          (case State_Value s1 w of
             StateReady \<Rightarrow> (Inl (Inr w), s1)
           | StateWorking \<Rightarrow> (Inr (), container_Push w s1)
           | StateInactive \<Rightarrow> (Inr (), Kill w s1)
           | StateDestroyed \<Rightarrow> (Inr (), Kill w s1)
           | StateErrored \<Rightarrow> (Inr (), Kill w s1)
           | StateStopped \<Rightarrow> (Inr (), Kill w s1)
           | StateInvalid \<Rightarrow> (Inr (), Kill w s1)
           | StateKilling \<Rightarrow> (Inr (), Kill w s1)
           | StateStopping \<Rightarrow> (Inr (), Kill w s1)
           | StateMaxJobsReached \<Rightarrow> (Inr (), s1)))"

lemma Take_body_again: "Take_body ctx s = (Inr u, s1) \<Longrightarrow> 0 < ctx"
  by (auto simp: Take_body_def container_Pop_def split: if_splits list.splits status.splits)

text \<open>The loop: the context lets one \<^verbatim>\<open>Pop\<close> fewer through on every round.\<close>

function Take_loop :: "nat \<Rightarrow> world \<Rightarrow> (err + wref) \<times> world" where
  "Take_loop ctx s =
     (case Take_body ctx s of
        (Inl r, s1) \<Rightarrow> (r, s1)
      | (Inr u, s1) \<Rightarrow> Take_loop (ctx - 1) s1)"
  by pat_completeness auto
termination
proof (relation "measure fst")
  show "wf (measure fst)" by simp
next
  fix ctx :: nat and s x1 s1 u
  assume "(x1, s1) = Take_body ctx s" and "x1 = Inr u"
  then have "Take_body ctx s = (Inr u, s1)" by simp
  then have "0 < ctx" by (rule Take_body_again)
  then show "((ctx - 1, s1), (ctx, s)) \<in> measure fst" by simp
qed

definition Take :: "nat \<Rightarrow> world \<Rightarrow> (err + wref) \<times> world" where
  "Take ctx s =
     (case container_Pop ctx s of
        (Inl e, s1) \<Rightarrow> (Inl (Take_error e), s1)
      | (Inr w, s1) \<Rightarrow>
          if State_Value s1 w = StateReady then (Inr w, s1)
          else Take_loop (ctx - 1) (Kill w s1))"

subsection \<open>Allocate\<close>

text \<open>\<^verbatim>\<open>newPoolAllocator\<close>: the closure the pool gives the watcher as its allocator.\<close>

definition allocator :: "env \<Rightarrow> world \<Rightarrow> (err + wref) \<times> world" where
  "allocator env s =
     (let s1 = (record_call CallSpawn s)\<lparr>spawned := Suc (spawned s)\<rparr> in
      case spawn env (spawned s) of
        Inl e \<Rightarrow> (Inl e, s1)
      | Inr sw \<Rightarrow> (Inr sw, events_Push (PoolEvent EventWorkerConstruct (Some sw) None) s1))"

text \<open>
  The \<^verbatim>\<open>select\<close> of the retry loop, \<open>t\<close> milliseconds after the first failure, the
  ticker's next tick being due then: the timer case (\<^verbatim>\<open>case <-tt\<close>) is taken when the
  timeout has passed before the tick is due; when both are due together the choice is
  the runtime's.
\<close>

definition timer_fires :: "env \<Rightarrow> int \<Rightarrow> int \<Rightarrow> bool" where
  "timer_fires env timeout t = (timeout < t \<or> (timeout = t \<and> \<not> tick_first env t))"

function Allocate_retry :: "env \<Rightarrow> int \<Rightarrow> err \<Rightarrow> int \<Rightarrow> world \<Rightarrow> (err + wref) \<times> world" where
  "Allocate_retry env timeout e t s =
     (if timer_fires env timeout t then
        (Inl (E ''worker_watcher_allocate_new'' WorkerAllocate e),
         s\<lparr>numWorkers := numWorkers s + NOT 0\<rparr>)
      else
        (case allocator env s of
           (Inl e', s1) \<Rightarrow>
             Allocate_retry env timeout e' (t + 500)
               (events_Push (WorkerEvent EventWorkerError None
                   (Some (E ''worker_watcher_allocate_new'' Undefined
                      (Errorf ''can't allocate worker, retry attempt failed: %v'' [e'])))) s1)
         | (Inr sw, s1) \<Rightarrow> (Inr sw, s1)))"
  by pat_completeness auto
termination
  by (relation "measure (\<lambda>(env, timeout, e, t, s). nat (timeout - t + 1))")
     (auto simp: timer_fires_def)

text \<open>The label \<^verbatim>\<open>done\<close>: the wait task, the cohort, the container. The append
  to the cohort is made between \<^verbatim>\<open>ww.Lock()\<close> and \<^verbatim>\<open>ww.Unlock()\<close>; the one caller of
  \<^verbatim>\<open>Allocate\<close> in the sources is the wait task, just after \<^verbatim>\<open>Remove\<close> has given the
  mutex back.\<close>

definition addToWatch :: "wref \<Rightarrow> world \<Rightarrow> world" where
  "addToWatch wb s = record_call (GoWait wb) s"

definition Allocate_done :: "wref \<Rightarrow> world \<Rightarrow> world" where
  "Allocate_done sw s =
     (let s1 = addToWatch sw s;
          s2 = s1\<lparr>workers := workers s1 @ [sw]\<rparr>
      in Release sw s2)"

definition Allocate :: "env \<Rightarrow> world \<Rightarrow> err option \<times> world" where
  "Allocate env s =
     (case allocator env s of
        (Inl e, s1) \<Rightarrow>
          (let s2 = events_Push (WorkerEvent EventWorkerError None
                      (Some (E ''worker_watcher_allocate_new'' Undefined
                         (Errorf ''can't allocate worker: %v'' [e])))) s1
           in if allocateTimeout s2 = 0 then
                (Some (E ''worker_watcher_allocate_new'' WorkerAllocate e), s2)
              else
                (case Allocate_retry env (allocateTimeout s2) e 500 s2 of
                   (Inl e', s3) \<Rightarrow> (Some e', s3)
                 | (Inr sw, s3) \<Rightarrow> (None, Allocate_done sw s3)))
      | (Inr sw, s1) \<Rightarrow> (None, Allocate_done sw s1))"

subsection \<open>Watch\<close>

fun Watch :: "wref list \<Rightarrow> world \<Rightarrow> world" where
  "Watch [] s = s"
| "Watch (w # ws) s =
     (let s1 = container_Push w s;
          s2 = s1\<lparr>workers := workers s1 @ [w]\<rparr>;
          s3 = record_call (GoWait w) s2
      in Watch ws s3)"

subsection \<open>Destroy\<close>

text \<open>The inner loop of \<^verbatim>\<open>Destroy\<close>, over the cohort as it stands.\<close>

fun Destroy_workers :: "wref list \<Rightarrow> world \<Rightarrow> world" where
  "Destroy_workers [] s = s"
| "Destroy_workers (w # ws) s = Destroy_workers ws (Kill w (State_Set w StateDestroyed s))"

text \<open>What \<^verbatim>\<open>Destroy\<close> does on one tick of its ticker: \<open>None\<close> is \<^verbatim>\<open>continue\<close>,
  after \<^verbatim>\<open>ww.Unlock()\<close>. On the other path the mutex taken at the start of the tick is
  still held when the inner loop runs and when \<^verbatim>\<open>Destroy\<close> returns.\<close>

definition Destroy_tick :: "world \<Rightarrow> world option" where
  "Destroy_tick s =
     (if numWorkers s \<noteq> of_nat (length (workers s)) then None
      else Some (Destroy_workers (workers s) (s\<lparr>locked := True\<rparr>)))"

text \<open>
  The polling loop. The ticker has a period of 100 milliseconds
  (\<^verbatim>\<open>time.NewTicker(time.Millisecond * 100)\<close>). Between two ticks the other tasks of the
  pool run: \<open>others\<close> lists what they do to the state in each successive period, and
  nothing happens once the list is used up. The loop returns the state and the time it
  took, or \<open>None\<close> when no tick ever finds the cohort at its target size.
\<close>

definition Destroy_period :: int where
  "Destroy_period = 100"

fun Destroy_loop :: "(world \<Rightarrow> world) list \<Rightarrow> int \<Rightarrow> world \<Rightarrow> (world \<times> int) option" where
  "Destroy_loop [] t s =
     (case Destroy_tick s of
        None \<Rightarrow> None
      | Some s' \<Rightarrow> Some (s', t + Destroy_period))"
| "Destroy_loop (f # fs) t s =
     (case Destroy_tick (f s) of
        None \<Rightarrow> Destroy_loop fs (t + Destroy_period) (f s)
      | Some s' \<Rightarrow> Some (s', t + Destroy_period))"

text \<open>The context argument is \<^verbatim>\<open>_ context.Context\<close>; \<open>True\<close> stands for a cancelled
  one. \<open>Destroy\<close> is run where the mutex is free when it asks for it.\<close>

definition Destroy :: "bool \<Rightarrow> (world \<Rightarrow> world) list \<Rightarrow> world \<Rightarrow> (world \<times> int) option" where
  "Destroy ctx_cancelled others s = Destroy_loop others 0 (container_Destroy s)"

subsection \<open>The wait task\<close>

text \<open>How the task ends: it returns, it panics, or it waits for the mutex for good.\<close>

datatype exit = Returned | Panic err | Blocked

text \<open>\<open>werr\<close> is what \<^verbatim>\<open>w.Wait()\<close> returned. \<^verbatim>\<open>Allocate\<close> takes the mutex around its
  append; the task has then just taken it and given it back in \<^verbatim>\<open>Remove\<close>.\<close>

definition wait :: "env \<Rightarrow> err option \<Rightarrow> wref \<Rightarrow> world \<Rightarrow> exit \<times> world" where
  "wait env werr w s =
     (let s1 = (case werr of
                  None \<Rightarrow> s
                | Some e \<Rightarrow> events_Push (WorkerEvent EventWorkerError (Some w)
                              (Some (E ''worker_watcher_wait'' Undefined e))) s)
      in case Remove_locking w s1 of
           None \<Rightarrow> (Blocked, s1)
         | Some s2 \<Rightarrow>
             if State_Value s2 w = StateDestroyed then
               (Returned, events_Push (PoolEvent EventWorkerDestruct (Some w) None) s2)
             else
               (let s3 = State_Set w StateStopped s2 in
                case Allocate env s3 of
                  (None, s4) \<Rightarrow> (Returned, s4)
                | (Some e, s4) \<Rightarrow>
                    (let s5 = events_Push (PoolEvent EventWorkerProcessExit None
                                (Some (E ''worker_watcher_wait'' Undefined e))) s4
                     in if length (workers s5) = 0 \<and> numWorkers s5 = 0 then
                          (Panic (E ''worker_watcher_wait'' WorkerAllocate
                             (Errorf ''can't allocate workers: %v'' [e])), s5)
                        else (Returned, s5))))"

section \<open>The static pool\<close>

subsection \<open>The worker's Exec\<close>

text \<open>Modelled from the spec: \<^verbatim>\<open>Exec\<close> and \<^verbatim>\<open>ExecWithTTL\<close> of the sync worker, which
  are not among the sources. On success the worker is back in state Ready and
  "num_execs increments exactly once per successful Exec return"; on failure the worker
  is left in the state the failure determines.\<close>

definition exec_result :: "exec_out \<Rightarrow> wref \<Rightarrow> world \<Rightarrow> (err + payload) \<times> world" where
  "exec_result out w s =
     (case out of
        Reply r \<Rightarrow>
          (Inr r, s\<lparr>heap := (heap s)(w := (heap s w)\<lparr>state := StateReady,
                                                    num_execs := num_execs (heap s w) + 1\<rparr>)\<rparr>)
      | Failure e st \<Rightarrow> (Inl e, State_Set w st s))"

definition worker_Exec :: "env \<Rightarrow> wref \<Rightarrow> payload \<Rightarrow> world \<Rightarrow> (err + payload) \<times> world" where
  "worker_Exec env w p s =
     exec_result (exec_reply env w (NumExecs s w) p) w (record_call (CallExec w p) s)"

definition worker_ExecWithTTL ::
    "env \<Rightarrow> nat \<Rightarrow> wref \<Rightarrow> payload \<Rightarrow> world \<Rightarrow> (err + payload) \<times> world" where
  "worker_ExecWithTTL env ctx w p s =
     exec_result (exec_ttl_reply env ctx w (NumExecs s w) p) w (record_call (CallExecTTL w p) s)"

subsection \<open>stopWorker, checkMaxJobs, takeWorker\<close>

definition stopWorker :: "env \<Rightarrow> wref \<Rightarrow> world \<Rightarrow> world" where
  "stopWorker env w s =
     (let s1 = State_Set w StateInvalid s;
          s2 = Stop w s1
      in case stop_result env w of
           None \<Rightarrow> s2
         | Some e \<Rightarrow> events_Push (WorkerEvent EventWorkerError (Some w)
                       (Some (E ''static_pool_stop_worker'' Undefined e))) s2)"

definition checkMaxJobs :: "config \<Rightarrow> wref \<Rightarrow> world \<Rightarrow> world" where
  "checkMaxJobs cfg w s =
     (if NumExecs s w \<ge> MaxJobs cfg then Release w (State_Set w StateMaxJobsReached s)
      else Release w s)"

definition takeWorker :: "nat \<Rightarrow> string \<Rightarrow> world \<Rightarrow> (err + wref) \<times> world" where
  "takeWorker ctxGetFree op' s =
     (case Take ctxGetFree s of
        (Inl e, s1) \<Rightarrow>
          if Is NoFreeWorkers e then
            (Inl (E op' Undefined e),
             events_Push (PoolEvent EventNoFreeWorkers None (Some (E op' Undefined e))) s1)
          else (Inl (E op' Undefined e), s1)
      | (Inr w, s1) \<Rightarrow> (Inr w, s1))"

subsection \<open>The error encoder\<close>

text \<open>The format \<^verbatim>\<open>"err: %v\nerrStop: %v"\<close>.\<close>

definition errStop_format :: string where
  "errStop_format = ''err: %v'' @ [CHR 0x0A] @ ''errStop: %v''"

definition defaultErrEncoder ::
    "config \<Rightarrow> env \<Rightarrow> err \<Rightarrow> wref \<Rightarrow> world \<Rightarrow> (err + payload) \<times> world" where
  "defaultErrEncoder cfg env e w s =
     (if Is ExecTTL e then
        (let s1 = events_Push (PoolEvent EventExecTTL None
                    (Some (E ''error_encoder'' Undefined e))) s;
             s2 = State_Set w StateInvalid s1
         in (Inl e, s2))
      else if Is SoftJob e then
        (let s1 = events_Push (WorkerEvent EventWorkerError (Some w)
                    (Some (E ''error_encoder'' Undefined e))) s
         in if MaxJobs cfg \<noteq> 0 \<and> NumExecs s1 w \<ge> MaxJobs cfg then
              (let s2 = State_Set w StateInvalid s1;
                   s3 = Stop w s2
               in case stop_result env w of
                    Some errS \<Rightarrow>
                      (Inl (E ''error_encoder'' SoftJob
                         (Errorf errStop_format [e, errS])), s3)
                  | None \<Rightarrow> (Inl e, s3))
            else (Inl e, Release w s1))
      else if Is Network e then
        (let s1 = State_Set w StateInvalid s;
             s2 = events_Push (WorkerEvent EventWorkerError (Some w)
                    (Some (E ''error_encoder'' Undefined e))) s1;
             s3 = Kill w s2
         in (Inl e, s3))
      else
        (let s1 = State_Set w StateInvalid s;
             s2 = events_Push (PoolEvent EventWorkerDestruct (Some w) None) s1;
             s3 = Stop w s2
         in case stop_result env w of
              Some errS \<Rightarrow>
                (Inl (E ''error_encoder'' Undefined
                   (Errorf errStop_format [e, errS])), s3)
            | None \<Rightarrow> (Inl (E ''error_encoder'' Undefined e), s3)))"

subsection \<open>The debug path\<close>

definition execDebug :: "env \<Rightarrow> payload \<Rightarrow> world \<Rightarrow> (err + payload) \<times> world" where
  "execDebug env p s =
     (case allocator env s of
        (Inl e, s1) \<Rightarrow> (Inl e, s1)
      | (Inr sw, s1) \<Rightarrow>
          (case worker_Exec env sw p s1 of
             (Inl e, s2) \<Rightarrow> (Inl (E ''static_pool_exec_debug'' Undefined e), s2)
           | (Inr r, s2) \<Rightarrow>
               (let s3 = State_Set sw StateDestroyed s2;
                    s4 = Kill sw s3
                in case kill_result env sw of
                     Some e \<Rightarrow>
                       (Inl (E ''static_pool_exec_debug'' Undefined e),
                        events_Push (WorkerEvent EventWorkerError (Some sw) (Some e)) s4)
                   | None \<Rightarrow> (Inr r, s4))))"

text \<open>The event of \<^verbatim>\<open>execDebugWithTTL\<close> carries the error of the execution, which may be
  absent.\<close>

definition execDebugWithTTL ::
    "env \<Rightarrow> nat \<Rightarrow> payload \<Rightarrow> world \<Rightarrow> (err + payload) \<times> world" where
  "execDebugWithTTL env ctx p s =
     (case allocator env s of
        (Inl e, s1) \<Rightarrow> (Inl e, s1)
      | (Inr sw, s1) \<Rightarrow>
          (case worker_ExecWithTTL env ctx sw p s1 of
             (r, s2) \<Rightarrow>
               (let s3 = Stop sw s2
                in case stop_result env sw of
                     Some stopErr \<Rightarrow>
                       (r, events_Push (WorkerEvent EventWorkerError (Some sw)
                             (case r of Inl e \<Rightarrow> Some e | Inr x \<Rightarrow> None)) s3)
                   | None \<Rightarrow> (r, s3))))"

section \<open>What the operations leave alone\<close>

lemma record_call_simps [simp]:
  "heap (record_call c s) = heap s"
  "container (record_call c s) = container s"
  "destroy (record_call c s) = destroy s"
  "workers (record_call c s) = workers s"
  "numWorkers (record_call c s) = numWorkers s"
  "allocateTimeout (record_call c s) = allocateTimeout s"
  "spawned (record_call c s) = spawned s"
  "locked (record_call c s) = locked s"
  "trace (record_call c s) = trace s @ [c]"
  by (simp_all add: record_call_def)

lemma Kill_simps [simp]:
  "heap (Kill w s) = heap s"
  "container (Kill w s) = container s"
  "destroy (Kill w s) = destroy s"
  "workers (Kill w s) = workers s"
  "numWorkers (Kill w s) = numWorkers s"
  "allocateTimeout (Kill w s) = allocateTimeout s"
  "spawned (Kill w s) = spawned s"
  "locked (Kill w s) = locked s"
  "trace (Kill w s) = trace s @ [CallKill w]"
  by (simp_all add: Kill_def)

lemma Stop_simps [simp]:
  "heap (Stop w s) = heap s"
  "container (Stop w s) = container s"
  "destroy (Stop w s) = destroy s"
  "workers (Stop w s) = workers s"
  "numWorkers (Stop w s) = numWorkers s"
  "allocateTimeout (Stop w s) = allocateTimeout s"
  "spawned (Stop w s) = spawned s"
  "locked (Stop w s) = locked s"
  "trace (Stop w s) = trace s @ [CallStop w]"
  by (simp_all add: Stop_def)

lemma events_Push_simps [simp]:
  "heap (events_Push ev s) = heap s"
  "container (events_Push ev s) = container s"
  "destroy (events_Push ev s) = destroy s"
  "workers (events_Push ev s) = workers s"
  "numWorkers (events_Push ev s) = numWorkers s"
  "allocateTimeout (events_Push ev s) = allocateTimeout s"
  "spawned (events_Push ev s) = spawned s"
  "locked (events_Push ev s) = locked s"
  "trace (events_Push ev s) = trace s @ [EventPush ev]"
  by (simp_all add: events_Push_def)

lemma State_Set_simps [simp]:
  "heap (State_Set w v s) = (heap s)(w := (heap s w)\<lparr>state := v\<rparr>)"
  "container (State_Set w v s) = container s"
  "destroy (State_Set w v s) = destroy s"
  "workers (State_Set w v s) = workers s"
  "numWorkers (State_Set w v s) = numWorkers s"
  "allocateTimeout (State_Set w v s) = allocateTimeout s"
  "spawned (State_Set w v s) = spawned s"
  "locked (State_Set w v s) = locked s"
  "trace (State_Set w v s) = trace s"
  by (simp_all add: State_Set_def)

lemma container_Push_simps [simp]:
  "heap (container_Push w s) = heap s"
  "container (container_Push w s) = (if destroy s then container s else container s @ [w])"
  "destroy (container_Push w s) = destroy s"
  "workers (container_Push w s) = workers s"
  "numWorkers (container_Push w s) = numWorkers s"
  "allocateTimeout (container_Push w s) = allocateTimeout s"
  "spawned (container_Push w s) = spawned s"
  "locked (container_Push w s) = locked s"
  "trace (container_Push w s) =
     (if destroy s then trace s @ [CallPush w, CallKill w] else trace s @ [CallPush w])"
  by (simp_all add: container_Push_def Let_def)

declare State_Value_def [simp] NumExecs_def [simp] Pid_def [simp]

subsection \<open>Pop\<close>

lemma container_Pop_InrE:
  assumes "container_Pop ctx s = (Inr w, s1)"
  obtains ws where "\<not> destroy s" and "0 < ctx" and "container s = w # ws"
    and "s1 = s\<lparr>container := ws\<rparr>"
  using assms by (auto simp: container_Pop_def split: if_splits list.splits)

lemma container_Pop_Inl: "container_Pop ctx s = (Inl e, s1) \<Longrightarrow> s1 = s"
  by (auto simp: container_Pop_def split: if_splits list.splits)

lemma container_Pop_head:
  "\<not> destroy s \<Longrightarrow> 0 < ctx \<Longrightarrow> container s = w # ws \<Longrightarrow>
     container_Pop ctx s = (Inr w, s\<lparr>container := ws\<rparr>)"
  by (simp add: container_Pop_def)

subsection \<open>Take, as far as the container goes\<close>

text \<open>What a round of the loop, the loop and \<open>Take\<close> leave alone.\<close>

definition Take_frame :: "world \<Rightarrow> world \<Rightarrow> bool" where
  "Take_frame s s1 =
     (heap s1 = heap s \<and> destroy s1 = destroy s \<and> workers s1 = workers s \<and>
      numWorkers s1 = numWorkers s \<and> allocateTimeout s1 = allocateTimeout s \<and>
      spawned s1 = spawned s \<and>
      set (container s1) \<subseteq> set (container s) \<and>
      (distinct (container s) \<longrightarrow> distinct (container s1)) \<and>
      length (container s1) \<le> length (container s))"

lemma Take_frame_refl [simp]: "Take_frame s s"
  by (simp add: Take_frame_def)

lemma Take_frame_trans: "Take_frame s s1 \<Longrightarrow> Take_frame s1 s2 \<Longrightarrow> Take_frame s s2"
  by (auto simp: Take_frame_def)

text \<open>A worker handed out was in the container, is Ready, and is no longer in a
  container without duplicates.\<close>

definition Take_gives :: "world \<Rightarrow> wref \<Rightarrow> world \<Rightarrow> bool" where
  "Take_gives s w s1 =
     (State_Value s w = StateReady \<and> w \<in> set (container s) \<and>
      length (container s1) < length (container s) \<and>
      (distinct (container s) \<longrightarrow> w \<notin> set (container s1)))"

lemma Take_body_frame:
  assumes tb: "Take_body ctx s = (r, s1)"
  shows "Take_frame s s1 \<and> (\<forall>w. r = Inl (Inr w) \<longrightarrow> Take_gives s w s1)"
proof -
  obtain x s0 where pop: "container_Pop ctx s = (x, s0)" by (cases "container_Pop ctx s")
  show ?thesis
  proof (cases x)
    case (Inl e)
    with pop have "s0 = s" by (auto dest: container_Pop_Inl)
    with tb pop Inl show ?thesis by (auto simp: Take_body_def)
  next
    case (Inr w)
    with pop obtain ws where d: "\<not> destroy s" "container s = w # ws" "s0 = s\<lparr>container := ws\<rparr>"
      by (auto elim: container_Pop_InrE)
    have sv: "State_Value s0 w = State_Value s w" using d by simp
    show ?thesis
      using tb pop Inr d sv
      by (cases "State_Value s w") (auto simp: Take_body_def Take_frame_def Take_gives_def)
  qed
qed

lemma Take_gives_mono:
  "Take_frame s s1 \<Longrightarrow> Take_gives s1 w s2 \<Longrightarrow> Take_gives s w s2"
  by (auto simp: Take_frame_def Take_gives_def State_Value_def)

lemma Take_loop_frame:
  "Take_loop ctx s = (r, s') \<Longrightarrow>
     Take_frame s s' \<and> (\<forall>w. r = Inr w \<longrightarrow> Take_gives s w s')"
proof (induction ctx s rule: Take_loop.induct)
  case (1 ctx s)
  obtain b s1 where b: "Take_body ctx s = (b, s1)" by (cases "Take_body ctx s")
  note fr = Take_body_frame[OF b]
  show ?case
  proof (cases b)
    case (Inl res)
    with b "1.prems" have "res = r" "s1 = s'" by (simp_all add: Take_loop.simps[of ctx s])
    with fr Inl show ?thesis by simp
  next
    case (Inr u)
    with b "1.prems" have "Take_loop (ctx - 1) s1 = (r, s')"
      by (simp add: Take_loop.simps[of ctx s])
    with "1.IH"[OF b[symmetric] Inr]
    have "Take_frame s1 s' \<and> (\<forall>w. r = Inr w \<longrightarrow> Take_gives s1 w s')" by simp
    with fr show ?thesis by (blast intro: Take_frame_trans Take_gives_mono)
  qed
qed

lemma Take_frame_Kill: "Take_frame s s1 \<Longrightarrow> Take_frame s (Kill w s1)"
  by (simp add: Take_frame_def)

lemma Take_frame_gives:
  assumes tk: "Take ctx s = (r, s')"
  shows "Take_frame s s' \<and> (\<forall>w. r = Inr w \<longrightarrow> Take_gives s w s')"
proof -
  obtain x s0 where pop: "container_Pop ctx s = (x, s0)" by (cases "container_Pop ctx s")
  show ?thesis
  proof (cases x)
    case (Inl e)
    with pop have "s0 = s" by (auto dest: container_Pop_Inl)
    with tk pop Inl show ?thesis by (auto simp: Take_def)
  next
    case (Inr w)
    with pop obtain ws where d: "\<not> destroy s" "container s = w # ws" "s0 = s\<lparr>container := ws\<rparr>"
      by (auto elim: container_Pop_InrE)
    have sv: "State_Value s0 w = State_Value s w" using d by simp
    have f0: "Take_frame s (Kill w s0)" using d by (auto simp: Take_frame_def)
    show ?thesis
    proof (cases "State_Value s w = StateReady")
      case True
      with tk pop Inr sv have "r = Inr w" "s' = s0" by (simp_all add: Take_def)
      with d True show ?thesis by (auto simp: Take_frame_def Take_gives_def)
    next
      case False
      with tk pop Inr sv have "Take_loop (ctx - 1) (Kill w s0) = (r, s')" by (simp add: Take_def)
      from Take_loop_frame[OF this] f0 show ?thesis
        by (blast intro: Take_frame_trans Take_gives_mono)
    qed
  qed
qed

lemma takeWorker_frame:
  assumes "takeWorker ctx op' s = (Inr w, s')"
  shows "Take_frame s s' \<and> Take_gives s w s' \<and> trace s' = trace (snd (Take ctx s))"
proof -
  obtain x s0 where tk: "Take ctx s = (x, s0)" by (cases "Take ctx s")
  with assms have "x = Inr w" "s0 = s'"
    by (auto simp: takeWorker_def split: sum.splits if_splits)
  with Take_frame_gives[OF tk] tk show ?thesis by simp
qed

lemma takeWorker_length:
  "takeWorker ctx op' s = (Inr w, s') \<Longrightarrow> length (container s') < length (container s)"
  by (drule takeWorker_frame) (simp add: Take_gives_def)

lemma exec_result_container: "exec_result out w s = (r, s') \<Longrightarrow> container s' = container s"
  by (auto simp: exec_result_def split: exec_out.splits)

lemma worker_Exec_container: "worker_Exec env w p s = (r, s') \<Longrightarrow> container s' = container s"
  by (auto simp: worker_Exec_def dest!: exec_result_container)

lemma worker_ExecWithTTL_container:
  "worker_ExecWithTTL env ctx w p s = (r, s') \<Longrightarrow> container s' = container s"
  by (auto simp: worker_ExecWithTTL_def dest!: exec_result_container)

lemma stopWorker_container [simp]: "container (stopWorker env w s) = container s"
  by (simp add: stopWorker_def Let_def split: option.splits)

section \<open>Exec and execWithTTL\<close>

text \<open>
  The context of \<^verbatim>\<open>takeWorker\<close> is \<^verbatim>\<open>context.WithTimeout(context.Background(),
  sp.cfg.AllocateTimeout)\<close>. The recursion is the source's
  \<^verbatim>\<open>return sp.Exec(p)\<close>; it ends because every attempt that gets that far has taken
  a worker out of the container for good.
\<close>

function Exec :: "config \<Rightarrow> env \<Rightarrow> payload \<Rightarrow> world \<Rightarrow> (err + payload) \<times> world" where
  "Exec cfg env p s =
     (if Debug cfg then execDebug env p s
      else
        (case takeWorker (pops_within env (AllocateTimeout cfg)) ''static_pool_exec'' s of
           (Inl e, s1) \<Rightarrow> (Inl (E ''static_pool_exec'' Undefined e), s1)
         | (Inr w, s1) \<Rightarrow>
             (case worker_Exec env w p s1 of
                (Inl e, s2) \<Rightarrow> defaultErrEncoder cfg env e w s2
              | (Inr rsp, s2) \<Rightarrow>
                  if length (Body rsp) = 0 \<and> Context rsp = StopRequest then
                    Exec cfg env p (stopWorker env w s2)
                  else if MaxJobs cfg \<noteq> 0 then (Inr rsp, checkMaxJobs cfg w s2)
                  else (Inr rsp, Release w s2))))"
  by pat_completeness simp
termination
proof (relation "measure (\<lambda>(cfg, env, p, s). length (container s))")
  show "wf (measure (\<lambda>(cfg, env, p, s). length (container s)))" by simp
next
  fix cfg env p s x1 s1 w x2 s2 rsp
  assume h1: "(x1, s1) = takeWorker (pops_within env (AllocateTimeout cfg)) ''static_pool_exec'' s"
    and h2: "x1 = Inr w"
    and h3: "(x2, s2) = worker_Exec env w p s1"
    and h4: "x2 = Inr rsp"
  have a: "takeWorker (pops_within env (AllocateTimeout cfg)) ''static_pool_exec'' s = (Inr w, s1)"
    unfolding h2[symmetric] by (rule h1[symmetric])
  have b: "worker_Exec env w p s1 = (Inr rsp, s2)"
    unfolding h4[symmetric] by (rule h3[symmetric])
  have "length (container (stopWorker env w s2)) < length (container s)"
    using takeWorker_length[OF a] worker_Exec_container[OF b] by simp
  then show "((cfg, env, p, stopWorker env w s2), (cfg, env, p, s))
          \<in> measure (\<lambda>(cfg, env, p, s). length (container s))"
    by simp
qed

text \<open>"Be careful, sync with pool.Exec method": the same with the caller's context
  handed to the worker.\<close>

function execWithTTL ::
    "config \<Rightarrow> env \<Rightarrow> nat \<Rightarrow> payload \<Rightarrow> world \<Rightarrow> (err + payload) \<times> world" where
  "execWithTTL cfg env ctx p s =
     (if Debug cfg then execDebugWithTTL env ctx p s
      else
        (case takeWorker (pops_within env (AllocateTimeout cfg))
                ''static_pool_exec_with_context'' s of
           (Inl e, s1) \<Rightarrow> (Inl (E ''static_pool_exec_with_context'' Undefined e), s1)
         | (Inr w, s1) \<Rightarrow>
             (case worker_ExecWithTTL env ctx w p s1 of
                (Inl e, s2) \<Rightarrow> defaultErrEncoder cfg env e w s2
              | (Inr rsp, s2) \<Rightarrow>
                  if length (Body rsp) = 0 \<and> Context rsp = StopRequest then
                    execWithTTL cfg env ctx p (stopWorker env w s2)
                  else if MaxJobs cfg \<noteq> 0 then (Inr rsp, checkMaxJobs cfg w s2)
                  else (Inr rsp, Release w s2))))"
  by pat_completeness simp
termination
proof (relation "measure (\<lambda>(cfg, env, ctx, p, s). length (container s))")
  show "wf (measure (\<lambda>(cfg, env, ctx, p, s). length (container s)))" by simp
next
  fix cfg env ctx p s x1 s1 w x2 s2 rsp
  assume h1: "(x1, s1) = takeWorker (pops_within env (AllocateTimeout cfg))
                 ''static_pool_exec_with_context'' s"
    and h2: "x1 = Inr w"
    and h3: "(x2, s2) = worker_ExecWithTTL env ctx w p s1"
    and h4: "x2 = Inr rsp"
  have a: "takeWorker (pops_within env (AllocateTimeout cfg))
             ''static_pool_exec_with_context'' s = (Inr w, s1)"
    unfolding h2[symmetric] by (rule h1[symmetric])
  have b: "worker_ExecWithTTL env ctx w p s1 = (Inr rsp, s2)"
    unfolding h4[symmetric] by (rule h3[symmetric])
  have "length (container (stopWorker env w s2)) < length (container s)"
    using takeWorker_length[OF a] worker_ExecWithTTL_container[OF b] by simp
  then show "((cfg, env, ctx, p, stopWorker env w s2), (cfg, env, ctx, p, s))
          \<in> measure (\<lambda>(cfg, env, ctx, p, s). length (container s))"
    by simp
qed

declare Take_loop.simps [simp del] Allocate_retry.simps [simp del]
declare Exec.simps [simp del] execWithTTL.simps [simp del]

section \<open>Initialize\<close>

text \<open>\<^verbatim>\<open>NewSyncWorkerWatcher\<close>, over a store of worker objects; nothing has been called
  yet.\<close>

definition NewSyncWorkerWatcher :: "(wref \<Rightarrow> worker) \<Rightarrow> 64 word \<Rightarrow> int \<Rightarrow> world" where
  "NewSyncWorkerWatcher h n timeout =
     \<lparr>heap = h, container = [], destroy = False, workers = [], numWorkers = n,
      allocateTimeout = timeout, trace = [], spawned = 0, locked = False\<rparr>"

text \<open>\<^verbatim>\<open>allocateWorkers\<close>: the loop counts up to \<open>numWorkers\<close>; the first failure ends
  it.\<close>

fun allocateWorkers :: "env \<Rightarrow> nat \<Rightarrow> world \<Rightarrow> (err + wref list) \<times> world" where
  "allocateWorkers env 0 s = (Inr [], s)"
| "allocateWorkers env (Suc n) s =
     (case allocator env s of
        (Inl e, s1) \<Rightarrow> (Inl (E ''static_pool_allocate_workers'' WorkerAllocate e), s1)
      | (Inr w, s1) \<Rightarrow>
          (case allocateWorkers env n s1 of
             (Inl e, s2) \<Rightarrow> (Inl e, s2)
           | (Inr ws, s2) \<Rightarrow> (Inr (w # ws), s2)))"

text \<open>
  \<^verbatim>\<open>Initialize\<close>, up to the pool it builds: the configuration the pool keeps and the
  watcher's state. \<open>InitDefaults\<close> stands for \<^verbatim>\<open>cfg.InitDefaults()\<close>, which is not among
  the sources; \<open>no_factory\<close> for \<^verbatim>\<open>factory == nil\<close>. The options and the supervisor
  wrapper are left out: they add listeners and a decorator around the pool.
\<close>

definition Initialize ::
    "env \<Rightarrow> (config \<Rightarrow> config) \<Rightarrow> bool \<Rightarrow> (wref \<Rightarrow> worker) \<Rightarrow> config \<Rightarrow> err + (config \<times> world)" where
  "Initialize env InitDefaults no_factory h cfg0 =
     (if no_factory then
        Inl (E ''static_pool_initialize'' Undefined (Str ''no factory initialized''))
      else
        (let cfg1 = InitDefaults cfg0;
             cfg = (if Debug cfg1 then cfg1\<lparr>NumWorkers := 0, MaxJobs := 1\<rparr> else cfg1);
             s0 = NewSyncWorkerWatcher h (NumWorkers cfg) (AllocateTimeout cfg)
         in case allocateWorkers env (unat (NumWorkers cfg)) s0 of
              (Inl e, s1) \<Rightarrow> Inl (E ''static_pool_initialize'' Undefined e)
            | (Inr ws, s1) \<Rightarrow> Inr (cfg, Watch ws s1)))"

section \<open>Worlds to run the operations on\<close>

text \<open>A store in which handle \<open>w\<close> has pid \<open>10 * w\<close>, except the handles 3 and 5, which
  report the pid of handle 2. All workers are Ready; handle 2 has run three payloads, the
  others none.\<close>

definition demo_heap :: "wref \<Rightarrow> worker" where
  "demo_heap w =
     \<lparr>pid = (if w = 3 \<or> w = 5 then 20 else 10 * int w), state = StateReady,
      num_execs = (if w = 2 then 3 else 0)\<rparr>"

definition demo_world :: world where
  "demo_world =
     \<lparr>heap = demo_heap, container = [1, 2, 3], destroy = False, workers = [1, 2, 3],
      numWorkers = 3, allocateTimeout = 1200, trace = [], spawned = 0, locked = False\<rparr>"

definition demo_cfg :: config where
  "demo_cfg = \<lparr>Debug = False, NumWorkers = 3, MaxJobs = 3, AllocateTimeout = 1200\<rparr>"

definition ok_reply :: payload where
  "ok_reply = \<lparr>Context = [], Body = ''ok''\<rparr>"

definition stop_reply :: payload where
  "stop_reply = \<lparr>Context = StopRequest, Body = []\<rparr>"

text \<open>Collaborators: every worker answers \<open>ok\<close>, except handle 1, which asks to be
  stopped; \<^verbatim>\<open>Stop\<close> and \<^verbatim>\<open>Kill\<close> succeed; the factory's n-th worker is handle \<open>10 + n\<close>;
  a context lets one \<^verbatim>\<open>Pop\<close> through per 100 milliseconds.\<close>

definition demo_env :: env where
  "demo_env =
     \<lparr>exec_reply = (\<lambda>w n p. if w = 1 then Reply stop_reply else Reply ok_reply),
      exec_ttl_reply = (\<lambda>ctx w n p. if w = 1 then Reply stop_reply else Reply ok_reply),
      stop_result = (\<lambda>w. None),
      kill_result = (\<lambda>w. None),
      spawn = (\<lambda>n. Inr (10 + n)),
      pops_within = (\<lambda>t. nat (t div 100)),
      tick_first = (\<lambda>t. False)\<rparr>"

section \<open>Properties of Remove\<close>

lemma remove_loop_None:
  "(\<forall>x\<in>set xs. pidf x \<noteq> p) \<Longrightarrow> remove_loop pidf p xs = None"
  by (induction xs) simp_all

lemma remove_loop_Some:
  "(\<forall>x\<in>set xs. pidf x \<noteq> p) \<Longrightarrow> pidf y = p \<Longrightarrow>
     remove_loop pidf p (xs @ y # ys) = Some (xs @ ys)"
  by (induction xs) simp_all

text \<open>
  Claim C9. \<^verbatim>\<open>Remove\<close> takes at most one entry out of the cohort: the first one whose
  pid is that of the worker given. The entries before it and after it stay, in their
  order, and \<^verbatim>\<open>Kill\<close> is called once, on the worker given; nothing else changes. When
  no entry has that pid, the state is the same as before, and so no \<^verbatim>\<open>Kill\<close> has been
  called.
\<close>

theorem Remove_first_match:
  "((\<forall>x\<in>set xs. Pid s x \<noteq> Pid s wb) \<and> Pid s y = Pid s wb \<and> workers s = xs @ y # ys \<longrightarrow>
      Remove wb s = Kill wb (s\<lparr>workers := xs @ ys\<rparr>) \<and>
      workers (Remove wb s) = xs @ ys \<and>
      trace (Remove wb s) = trace s @ [CallKill wb] \<and>
      heap (Remove wb s) = heap s \<and> container (Remove wb s) = container s \<and>
      numWorkers (Remove wb s) = numWorkers s \<and> destroy (Remove wb s) = destroy s)
   \<and> ((\<forall>x\<in>set (workers s). Pid s x \<noteq> Pid s wb) \<longrightarrow> Remove wb s = s)"
proof (intro conjI impI)
  assume a: "(\<forall>x\<in>set xs. Pid s x \<noteq> Pid s wb) \<and> Pid s y = Pid s wb \<and> workers s = xs @ y # ys"
  then have "remove_loop (Pid s) (Pid s wb) (workers s) = Some (xs @ ys)"
    using remove_loop_Some[of xs "Pid s" "Pid s wb" y ys] by simp
  then show r: "Remove wb s = Kill wb (s\<lparr>workers := xs @ ys\<rparr>)"
    by (simp add: Remove_def)
  show "workers (Remove wb s) = xs @ ys" by (simp add: r)
  show "trace (Remove wb s) = trace s @ [CallKill wb]" by (simp add: r)
  show "heap (Remove wb s) = heap s" by (simp add: r)
  show "container (Remove wb s) = container s" by (simp add: r)
  show "numWorkers (Remove wb s) = numWorkers s" by (simp add: r)
  show "destroy (Remove wb s) = destroy s" by (simp add: r)
next
  assume "\<forall>x\<in>set (workers s). Pid s x \<noteq> Pid s wb"
  then have "remove_loop (Pid s) (Pid s wb) (workers s) = None"
    by (rule remove_loop_None)
  then show "Remove wb s = s" by (simp add: Remove_def)
qed

text \<open>On the cohort \<open>[1, 2, 3]\<close>, with the pids 10, 20 and 20: removing handle 5 (pid 20)
  takes entry 2 out and kills handle 5; removing handle 7 (pid 70) does nothing.\<close>

theorem Remove_first_match_witness:
  "workers (Remove 5 demo_world) = [1, 3] \<and>
   trace (Remove 5 demo_world) = [CallKill 5] \<and>
   Remove 7 demo_world = demo_world"
proof -
  have a: "(\<forall>x\<in>set [1]. Pid demo_world x \<noteq> Pid demo_world 5) \<and>
           Pid demo_world 2 = Pid demo_world 5 \<and> workers demo_world = [1] @ 2 # [3]"
    by (simp add: demo_world_def demo_heap_def)
  have b: "\<forall>x\<in>set (workers demo_world). Pid demo_world x \<noteq> Pid demo_world 7"
    by (simp add: demo_world_def demo_heap_def)
  have t: "trace demo_world = []" by (simp add: demo_world_def)
  from a Remove_first_match[of "[1]" demo_world 5 2 "[3]"]
  have "workers (Remove 5 demo_world) = [1] @ [3] \<and>
        trace (Remove 5 demo_world) = trace demo_world @ [CallKill 5]" by blast
  moreover from b Remove_first_match[of "[1]" demo_world 7 2 "[3]"]
  have "Remove 7 demo_world = demo_world" by blast
  ultimately show ?thesis by (simp add: t)
qed

section \<open>Properties of Release\<close>

lemma Release_simps [simp]:
  "heap (Release w s) = heap s"
  "destroy (Release w s) = destroy s"
  "workers (Release w s) = workers s"
  "numWorkers (Release w s) = numWorkers s"
  "allocateTimeout (Release w s) = allocateTimeout s"
  "spawned (Release w s) = spawned s"
  "locked (Release w s) = locked s"
  by (cases "state (heap s w)"; simp add: Release_def Let_def)+

lemma Release_container [simp]:
  "container (Release w s) =
     (if State_Value s w = StateReady \<and> \<not> destroy s then container s @ [w] else container s)"
  by (cases "state (heap s w)"; simp add: Release_def Let_def)

lemma Release_trace [simp]:
  "trace (Release w s) =
     trace s @ CallRelease w #
       (if State_Value s w = StateReady
        then (if destroy s then [CallPush w, CallKill w] else [CallPush w])
        else [CallKill w])"
  by (cases "state (heap s w)"; simp add: Release_def Let_def)

section \<open>Properties of the error encoder\<close>

lemma Is_unique: "Is k e \<Longrightarrow> Is k' e \<Longrightarrow> k = k'"
  by (induction e) (auto split: if_splits)

text \<open>
  Claim C1. The error encoder returns an error in every case, and never a payload.
  \<^item> ExecTTL: the event is pushed, the worker is set Invalid, and the error itself is
    returned; neither \<^verbatim>\<open>Stop\<close> nor \<^verbatim>\<open>Kill\<close> nor \<^verbatim>\<open>Release\<close> is called.
  \<^item> SoftJob, with \<open>max_jobs = 0\<close> or fewer executions than \<open>max_jobs\<close>: the event is
    pushed, the worker is released as it is (its state and counter untouched), and the
    error itself is returned.
  \<^item> SoftJob, with \<open>max_jobs > 0\<close> and the executions at \<open>max_jobs\<close> or beyond: the event
    is pushed, the worker is set Invalid and stopped, not released; the error returned is
    the error itself, or a SoftJob error holding it and the error of \<^verbatim>\<open>Stop\<close>.
  \<^item> Network: the worker is set Invalid, the event is pushed, the worker is killed, and
    the error itself is returned.
  \<^item> any other error: the worker is set Invalid, the event is pushed, the worker is
    stopped, and the error is returned wrapped in the encoder's operation (with the error
    of \<^verbatim>\<open>Stop\<close> beside it when there is one).
\<close>

theorem defaultErrEncoder_disposition:
  "(Is ExecTTL e \<longrightarrow>
      fst (defaultErrEncoder cfg env e w s) = Inl e \<and>
      State_Value (snd (defaultErrEncoder cfg env e w s)) w = StateInvalid \<and>
      trace (snd (defaultErrEncoder cfg env e w s)) =
        trace s @ [EventPush (PoolEvent EventExecTTL None (Some (E ''error_encoder'' Undefined e)))] \<and>
      container (snd (defaultErrEncoder cfg env e w s)) = container s)
   \<and> (Is SoftJob e \<and> \<not> (MaxJobs cfg \<noteq> 0 \<and> NumExecs s w \<ge> MaxJobs cfg) \<longrightarrow>
      fst (defaultErrEncoder cfg env e w s) = Inl e \<and>
      snd (defaultErrEncoder cfg env e w s) =
        Release w (events_Push (WorkerEvent EventWorkerError (Some w)
                     (Some (E ''error_encoder'' Undefined e))) s) \<and>
      heap (snd (defaultErrEncoder cfg env e w s)) = heap s \<and>
      trace (snd (defaultErrEncoder cfg env e w s)) =
        trace s @ [EventPush (WorkerEvent EventWorkerError (Some w)
                     (Some (E ''error_encoder'' Undefined e))), CallRelease w] @
          (if State_Value s w = StateReady
           then (if destroy s then [CallPush w, CallKill w] else [CallPush w])
           else [CallKill w]))
   \<and> (Is SoftJob e \<and> MaxJobs cfg \<noteq> 0 \<and> NumExecs s w \<ge> MaxJobs cfg \<longrightarrow>
      fst (defaultErrEncoder cfg env e w s) =
        (case stop_result env w of
           None \<Rightarrow> Inl e
         | Some errS \<Rightarrow> Inl (E ''error_encoder'' SoftJob (Errorf errStop_format [e, errS]))) \<and>
      State_Value (snd (defaultErrEncoder cfg env e w s)) w = StateInvalid \<and>
      trace (snd (defaultErrEncoder cfg env e w s)) =
        trace s @ [EventPush (WorkerEvent EventWorkerError (Some w)
                     (Some (E ''error_encoder'' Undefined e))), CallStop w] \<and>
      container (snd (defaultErrEncoder cfg env e w s)) = container s)
   \<and> (Is Network e \<longrightarrow>
      fst (defaultErrEncoder cfg env e w s) = Inl e \<and>
      State_Value (snd (defaultErrEncoder cfg env e w s)) w = StateInvalid \<and>
      trace (snd (defaultErrEncoder cfg env e w s)) =
        trace s @ [EventPush (WorkerEvent EventWorkerError (Some w)
                     (Some (E ''error_encoder'' Undefined e))), CallKill w] \<and>
      container (snd (defaultErrEncoder cfg env e w s)) = container s)
   \<and> (\<not> Is ExecTTL e \<and> \<not> Is SoftJob e \<and> \<not> Is Network e \<longrightarrow>
      fst (defaultErrEncoder cfg env e w s) =
        (case stop_result env w of
           None \<Rightarrow> Inl (E ''error_encoder'' Undefined e)
         | Some errS \<Rightarrow> Inl (E ''error_encoder'' Undefined (Errorf errStop_format [e, errS]))) \<and>
      State_Value (snd (defaultErrEncoder cfg env e w s)) w = StateInvalid \<and>
      trace (snd (defaultErrEncoder cfg env e w s)) =
        trace s @ [EventPush (PoolEvent EventWorkerDestruct (Some w) None), CallStop w] \<and>
      container (snd (defaultErrEncoder cfg env e w s)) = container s)"
proof (intro conjI impI)
  assume "Is ExecTTL e"
  then have r: "defaultErrEncoder cfg env e w s =
      (Inl e, State_Set w StateInvalid (events_Push (PoolEvent EventExecTTL None
                 (Some (E ''error_encoder'' Undefined e))) s))"
    by (simp add: defaultErrEncoder_def Let_def)
  show "fst (defaultErrEncoder cfg env e w s) = Inl e" by (simp add: r)
  show "State_Value (snd (defaultErrEncoder cfg env e w s)) w = StateInvalid" by (simp add: r)
  show "trace (snd (defaultErrEncoder cfg env e w s)) =
        trace s @ [EventPush (PoolEvent EventExecTTL None (Some (E ''error_encoder'' Undefined e)))]"
    by (simp add: r)
  show "container (snd (defaultErrEncoder cfg env e w s)) = container s" by (simp add: r)
next
  assume a: "Is SoftJob e \<and> \<not> (MaxJobs cfg \<noteq> 0 \<and> NumExecs s w \<ge> MaxJobs cfg)"
  then have n: "\<not> Is ExecTTL e" by (auto dest: Is_unique)
  from a n have r: "defaultErrEncoder cfg env e w s =
      (Inl e, Release w (events_Push (WorkerEvent EventWorkerError (Some w)
                     (Some (E ''error_encoder'' Undefined e))) s))"
    by (auto simp: defaultErrEncoder_def Let_def)
  show "fst (defaultErrEncoder cfg env e w s) = Inl e" by (simp add: r)
  show "snd (defaultErrEncoder cfg env e w s) =
        Release w (events_Push (WorkerEvent EventWorkerError (Some w)
                     (Some (E ''error_encoder'' Undefined e))) s)" by (simp add: r)
  show "heap (snd (defaultErrEncoder cfg env e w s)) = heap s" by (simp add: r)
  show "trace (snd (defaultErrEncoder cfg env e w s)) =
        trace s @ [EventPush (WorkerEvent EventWorkerError (Some w)
                     (Some (E ''error_encoder'' Undefined e))), CallRelease w] @
          (if State_Value s w = StateReady
           then (if destroy s then [CallPush w, CallKill w] else [CallPush w])
           else [CallKill w])" by (simp add: r)
next
  assume a: "Is SoftJob e \<and> MaxJobs cfg \<noteq> 0 \<and> NumExecs s w \<ge> MaxJobs cfg"
  then have n: "\<not> Is ExecTTL e" by (auto dest: Is_unique)
  let ?s3 = "Stop w (State_Set w StateInvalid (events_Push (WorkerEvent EventWorkerError (Some w)
                     (Some (E ''error_encoder'' Undefined e))) s))"
  from a n have r: "defaultErrEncoder cfg env e w s =
      ((case stop_result env w of
           None \<Rightarrow> Inl e
         | Some errS \<Rightarrow> Inl (E ''error_encoder'' SoftJob (Errorf errStop_format [e, errS]))), ?s3)"
    by (auto simp: defaultErrEncoder_def Let_def split: option.splits)
  show "fst (defaultErrEncoder cfg env e w s) =
        (case stop_result env w of
           None \<Rightarrow> Inl e
         | Some errS \<Rightarrow> Inl (E ''error_encoder'' SoftJob (Errorf errStop_format [e, errS])))"
    by (simp add: r)
  show "State_Value (snd (defaultErrEncoder cfg env e w s)) w = StateInvalid" by (simp add: r)
  show "trace (snd (defaultErrEncoder cfg env e w s)) =
        trace s @ [EventPush (WorkerEvent EventWorkerError (Some w)
                     (Some (E ''error_encoder'' Undefined e))), CallStop w]" by (simp add: r)
  show "container (snd (defaultErrEncoder cfg env e w s)) = container s" by (simp add: r)
next
  assume a: "Is Network e"
  then have n: "\<not> Is ExecTTL e" "\<not> Is SoftJob e" by (auto dest: Is_unique)
  from a n have r: "defaultErrEncoder cfg env e w s =
      (Inl e, Kill w (events_Push (WorkerEvent EventWorkerError (Some w)
                     (Some (E ''error_encoder'' Undefined e))) (State_Set w StateInvalid s)))"
    by (simp add: defaultErrEncoder_def Let_def)
  show "fst (defaultErrEncoder cfg env e w s) = Inl e" by (simp add: r)
  show "State_Value (snd (defaultErrEncoder cfg env e w s)) w = StateInvalid" by (simp add: r)
  show "trace (snd (defaultErrEncoder cfg env e w s)) =
        trace s @ [EventPush (WorkerEvent EventWorkerError (Some w)
                     (Some (E ''error_encoder'' Undefined e))), CallKill w]" by (simp add: r)
  show "container (snd (defaultErrEncoder cfg env e w s)) = container s" by (simp add: r)
next
  assume n: "\<not> Is ExecTTL e \<and> \<not> Is SoftJob e \<and> \<not> Is Network e"
  let ?s3 = "Stop w (events_Push (PoolEvent EventWorkerDestruct (Some w) None)
                 (State_Set w StateInvalid s))"
  from n have r: "defaultErrEncoder cfg env e w s =
      ((case stop_result env w of
           None \<Rightarrow> Inl (E ''error_encoder'' Undefined e)
         | Some errS \<Rightarrow> Inl (E ''error_encoder'' Undefined (Errorf errStop_format [e, errS]))), ?s3)"
    by (auto simp: defaultErrEncoder_def Let_def split: option.splits)
  show "fst (defaultErrEncoder cfg env e w s) =
        (case stop_result env w of
           None \<Rightarrow> Inl (E ''error_encoder'' Undefined e)
         | Some errS \<Rightarrow> Inl (E ''error_encoder'' Undefined (Errorf errStop_format [e, errS])))"
    by (simp add: r)
  show "State_Value (snd (defaultErrEncoder cfg env e w s)) w = StateInvalid" by (simp add: r)
  show "trace (snd (defaultErrEncoder cfg env e w s)) =
        trace s @ [EventPush (PoolEvent EventWorkerDestruct (Some w) None), CallStop w]"
    by (simp add: r)
  show "container (snd (defaultErrEncoder cfg env e w s)) = container s" by (simp add: r)
qed

text \<open>In the demo world, with \<open>max_jobs = 3\<close>: handle 1 has run nothing, handle 2 has
  run three payloads.\<close>

theorem defaultErrEncoder_disposition_witness:
  "trace (snd (defaultErrEncoder demo_cfg demo_env (E0 ''relay'' ExecTTL) 1 demo_world)) =
     [EventPush (PoolEvent EventExecTTL None
        (Some (E ''error_encoder'' Undefined (E0 ''relay'' ExecTTL))))] \<and>
   trace (snd (defaultErrEncoder demo_cfg demo_env (E0 ''relay'' SoftJob) 1 demo_world)) =
     [EventPush (WorkerEvent EventWorkerError (Some 1)
        (Some (E ''error_encoder'' Undefined (E0 ''relay'' SoftJob)))), CallRelease 1, CallPush 1] \<and>
   trace (snd (defaultErrEncoder demo_cfg demo_env (E0 ''relay'' SoftJob) 2 demo_world)) =
     [EventPush (WorkerEvent EventWorkerError (Some 2)
        (Some (E ''error_encoder'' Undefined (E0 ''relay'' SoftJob)))), CallStop 2] \<and>
   trace (snd (defaultErrEncoder demo_cfg demo_env (E0 ''relay'' Network) 1 demo_world)) =
     [EventPush (WorkerEvent EventWorkerError (Some 1)
        (Some (E ''error_encoder'' Undefined (E0 ''relay'' Network)))), CallKill 1] \<and>
   fst (defaultErrEncoder demo_cfg demo_env (E0 ''relay'' Decode) 1 demo_world) =
     Inl (E ''error_encoder'' Undefined (E0 ''relay'' Decode)) \<and>
   trace (snd (defaultErrEncoder demo_cfg demo_env (E0 ''relay'' Decode) 1 demo_world)) =
     [EventPush (PoolEvent EventWorkerDestruct (Some 1) None), CallStop 1]"
proof -
  have t: "trace demo_world = []" "destroy demo_world = False"
    "State_Value demo_world 1 = StateReady" "stop_result demo_env 1 = None"
    by (simp_all add: demo_world_def demo_heap_def demo_env_def)
  have h1: "Is ExecTTL (E0 ''relay'' ExecTTL)" by simp
  have h2: "Is SoftJob (E0 ''relay'' SoftJob) \<and>
            \<not> (MaxJobs demo_cfg \<noteq> 0 \<and> NumExecs demo_world 1 \<ge> MaxJobs demo_cfg)"
    by (simp add: demo_cfg_def demo_world_def demo_heap_def)
  have h3: "Is SoftJob (E0 ''relay'' SoftJob) \<and> MaxJobs demo_cfg \<noteq> 0 \<and>
            NumExecs demo_world 2 \<ge> MaxJobs demo_cfg"
    by (simp add: demo_cfg_def demo_world_def demo_heap_def)
  have h4: "Is Network (E0 ''relay'' Network)" by simp
  have h5: "\<not> Is ExecTTL (E0 ''relay'' Decode) \<and> \<not> Is SoftJob (E0 ''relay'' Decode) \<and>
            \<not> Is Network (E0 ''relay'' Decode)" by simp
  from h1 defaultErrEncoder_disposition[of "E0 ''relay'' ExecTTL" demo_cfg demo_env 1 demo_world]
  have c1: "trace (snd (defaultErrEncoder demo_cfg demo_env (E0 ''relay'' ExecTTL) 1 demo_world)) =
     trace demo_world @ [EventPush (PoolEvent EventExecTTL None
        (Some (E ''error_encoder'' Undefined (E0 ''relay'' ExecTTL))))]" by blast
  from h2 defaultErrEncoder_disposition[of "E0 ''relay'' SoftJob" demo_cfg demo_env 1 demo_world]
  have c2: "trace (snd (defaultErrEncoder demo_cfg demo_env (E0 ''relay'' SoftJob) 1 demo_world)) =
     trace demo_world @ [EventPush (WorkerEvent EventWorkerError (Some 1)
        (Some (E ''error_encoder'' Undefined (E0 ''relay'' SoftJob)))), CallRelease 1] @
          (if State_Value demo_world 1 = StateReady
           then (if destroy demo_world then [CallPush 1, CallKill 1] else [CallPush 1])
           else [CallKill 1])" by blast
  from h3 defaultErrEncoder_disposition[of "E0 ''relay'' SoftJob" demo_cfg demo_env 2 demo_world]
  have c3: "trace (snd (defaultErrEncoder demo_cfg demo_env (E0 ''relay'' SoftJob) 2 demo_world)) =
     trace demo_world @ [EventPush (WorkerEvent EventWorkerError (Some 2)
        (Some (E ''error_encoder'' Undefined (E0 ''relay'' SoftJob)))), CallStop 2]" by blast
  from h4 defaultErrEncoder_disposition[of "E0 ''relay'' Network" demo_cfg demo_env 1 demo_world]
  have c4: "trace (snd (defaultErrEncoder demo_cfg demo_env (E0 ''relay'' Network) 1 demo_world)) =
     trace demo_world @ [EventPush (WorkerEvent EventWorkerError (Some 1)
        (Some (E ''error_encoder'' Undefined (E0 ''relay'' Network)))), CallKill 1]" by blast
  from h5 defaultErrEncoder_disposition[of "E0 ''relay'' Decode" demo_cfg demo_env 1 demo_world]
  have c5: "fst (defaultErrEncoder demo_cfg demo_env (E0 ''relay'' Decode) 1 demo_world) =
        (case stop_result demo_env 1 of
           None \<Rightarrow> Inl (E ''error_encoder'' Undefined (E0 ''relay'' Decode))
         | Some errS \<Rightarrow> Inl (E ''error_encoder'' Undefined
                          (Errorf errStop_format [E0 ''relay'' Decode, errS])))"
    and c6: "trace (snd (defaultErrEncoder demo_cfg demo_env (E0 ''relay'' Decode) 1 demo_world)) =
     trace demo_world @ [EventPush (PoolEvent EventWorkerDestruct (Some 1) None), CallStop 1]"
    by blast+
  show ?thesis
    unfolding c1 c2 c3 c4 c5 c6 t by simp
qed

section \<open>Exec on the path that takes a worker\<close>

lemma StopRequest_length: "length StopRequest = 13"
  by (simp add: StopRequest_def)

lemma Exec_taken:
  assumes "\<not> Debug cfg"
    and "takeWorker (pops_within env (AllocateTimeout cfg)) ''static_pool_exec'' s = (Inr w, s1)"
    and "worker_Exec env w p s1 = (Inr rsp, s2)"
  shows "Exec cfg env p s =
     (if Body rsp = [] \<and> Context rsp = StopRequest then Exec cfg env p (stopWorker env w s2)
      else if MaxJobs cfg \<noteq> 0 then (Inr rsp, checkMaxJobs cfg w s2)
      else (Inr rsp, Release w s2))"
  using assms by (subst Exec.simps) simp

lemma stopWorker_simps [simp]:
  "heap (stopWorker env w s) = (heap s)(w := (heap s w)\<lparr>state := StateInvalid\<rparr>)"
  "destroy (stopWorker env w s) = destroy s"
  "workers (stopWorker env w s) = workers s"
  "numWorkers (stopWorker env w s) = numWorkers s"
  "trace (stopWorker env w s) =
     trace s @ CallStop w #
       (case stop_result env w of
          None \<Rightarrow> []
        | Some e \<Rightarrow> [EventPush (WorkerEvent EventWorkerError (Some w)
                       (Some (E ''static_pool_stop_worker'' Undefined e)))])"
  by (simp_all add: stopWorker_def Let_def split: option.splits)

text \<open>
  Claim C2. Off the debug path, when the worker taken answers with an empty body and the
  context \<open>{"stop":true}\<close> (13 bytes), \<open>Exec\<close> sets that worker Invalid, calls its
  \<^verbatim>\<open>Stop\<close>, and gives the caller what \<open>Exec\<close> gives for the same payload in the state
  reached; that attempt takes its worker from a container that has become shorter and,
  when the container held no handle twice, no longer holds the stopped worker. Any other
  reply is the caller's result as it is.
\<close>

theorem Exec_stop_sentinel:
  assumes "\<not> Debug cfg"
    and "takeWorker (pops_within env (AllocateTimeout cfg)) ''static_pool_exec'' s = (Inr w, s1)"
    and "worker_Exec env w p s1 = (Inr rsp, s2)"
  shows "length StopRequest = 13 \<and>
    (Body rsp = [] \<and> Context rsp = StopRequest \<longrightarrow>
       Exec cfg env p s = Exec cfg env p (stopWorker env w s2) \<and>
       State_Value (stopWorker env w s2) w = StateInvalid \<and>
       trace (stopWorker env w s2) =
         trace s2 @ CallStop w #
           (case stop_result env w of
              None \<Rightarrow> []
            | Some e \<Rightarrow> [EventPush (WorkerEvent EventWorkerError (Some w)
                           (Some (E ''static_pool_stop_worker'' Undefined e)))]) \<and>
       length (container (stopWorker env w s2)) < length (container s) \<and>
       (distinct (container s) \<longrightarrow> w \<notin> set (container (stopWorker env w s2)))) \<and>
    (\<not> (Body rsp = [] \<and> Context rsp = StopRequest) \<longrightarrow>
       fst (Exec cfg env p s) = Inr rsp)"
proof (intro conjI impI)
  show "length StopRequest = 13" by (rule StopRequest_length)
next
  assume st: "Body rsp = [] \<and> Context rsp = StopRequest"
  from Exec_taken[OF assms] st
  show "Exec cfg env p s = Exec cfg env p (stopWorker env w s2)" by simp
  show "State_Value (stopWorker env w s2) w = StateInvalid" by simp
  show "trace (stopWorker env w s2) =
         trace s2 @ CallStop w #
           (case stop_result env w of
              None \<Rightarrow> []
            | Some e \<Rightarrow> [EventPush (WorkerEvent EventWorkerError (Some w)
                           (Some (E ''static_pool_stop_worker'' Undefined e)))])" by simp
  from takeWorker_frame[OF assms(2)]
  have g: "Take_gives s w s1" by simp
  have c: "container s2 = container s1" using assms(3) by (rule worker_Exec_container)
  from g c show "length (container (stopWorker env w s2)) < length (container s)"
    by (simp add: Take_gives_def)
  show "w \<notin> set (container (stopWorker env w s2))" if "distinct (container s)"
    using g c that by (simp add: Take_gives_def)
next
  assume "\<not> (Body rsp = [] \<and> Context rsp = StopRequest)"
  with Exec_taken[OF assms] show "fst (Exec cfg env p s) = Inr rsp" by simp
qed

definition demo_payload :: payload where
  "demo_payload = \<lparr>Context = [], Body = ''job''\<rparr>"

lemma demo_take_1:
  "takeWorker (pops_within demo_env (AllocateTimeout demo_cfg)) ''static_pool_exec'' demo_world =
     (Inr 1, demo_world\<lparr>container := [2, 3]\<rparr>)"
  by (simp add: takeWorker_def Take_def container_Pop_def demo_env_def demo_cfg_def
      demo_world_def demo_heap_def)

lemma demo_take_2:
  "takeWorker (pops_within demo_env (AllocateTimeout demo_cfg)) ''static_pool_exec''
      (stopWorker demo_env 1
         (snd (worker_Exec demo_env 1 demo_payload (demo_world\<lparr>container := [2, 3]\<rparr>)))) =
     (Inr 2, (stopWorker demo_env 1
         (snd (worker_Exec demo_env 1 demo_payload (demo_world\<lparr>container := [2, 3]\<rparr>))))
               \<lparr>container := [3]\<rparr>)"
  by (simp add: takeWorker_def Take_def container_Pop_def demo_env_def demo_cfg_def
      demo_world_def demo_heap_def worker_Exec_def exec_result_def stopWorker_def Let_def
      record_call_def Stop_def State_Set_def)

text \<open>In the demo world the first worker taken, handle 1, asks to be stopped; the attempt
  that follows takes handle 2, whose reply is the caller's result.\<close>

theorem Exec_stop_sentinel_witness:
  "Exec demo_cfg demo_env demo_payload demo_world =
     Exec demo_cfg demo_env demo_payload
       (stopWorker demo_env 1
          (snd (worker_Exec demo_env 1 demo_payload (demo_world\<lparr>container := [2, 3]\<rparr>)))) \<and>
   fst (Exec demo_cfg demo_env demo_payload
       (stopWorker demo_env 1
          (snd (worker_Exec demo_env 1 demo_payload (demo_world\<lparr>container := [2, 3]\<rparr>))))) =
     Inr ok_reply"
proof -
  let ?s1 = "demo_world\<lparr>container := [2, 3]\<rparr>"
  let ?s2 = "snd (worker_Exec demo_env 1 demo_payload ?s1)"
  let ?t = "stopWorker demo_env 1 ?s2"
  let ?t1 = "?t\<lparr>container := [3]\<rparr>"
  have d: "\<not> Debug demo_cfg" by (simp add: demo_cfg_def)
  have e1: "worker_Exec demo_env 1 demo_payload ?s1 = (Inr stop_reply, ?s2)"
    by (simp add: worker_Exec_def exec_result_def demo_env_def)
  have e2: "worker_Exec demo_env 2 demo_payload ?t1 =
              (Inr ok_reply, snd (worker_Exec demo_env 2 demo_payload ?t1))"
    by (simp add: worker_Exec_def exec_result_def demo_env_def)
  have st: "Body stop_reply = [] \<and> Context stop_reply = StopRequest"
    by (simp add: stop_reply_def)
  have ns: "\<not> (Body ok_reply = [] \<and> Context ok_reply = StopRequest)"
    by (simp add: ok_reply_def)
  from Exec_stop_sentinel[OF d demo_take_1 e1] st
  have a: "Exec demo_cfg demo_env demo_payload demo_world =
           Exec demo_cfg demo_env demo_payload ?t" by blast
  from Exec_stop_sentinel[OF d demo_take_2 e2] ns
  have b: "fst (Exec demo_cfg demo_env demo_payload ?t) = Inr ok_reply" by blast
  from a b show ?thesis by simp
qed

section \<open>One Release for a worker that has served\<close>

lemma Take_body_releases:
  assumes tb: "Take_body ctx s = (r, s1)"
  shows "count_list (trace s1) (CallRelease x) = count_list (trace s) (CallRelease x)"
proof -
  obtain y s0 where pop: "container_Pop ctx s = (y, s0)" by (cases "container_Pop ctx s")
  show ?thesis
  proof (cases y)
    case (Inl e)
    with pop have "s0 = s" by (auto dest: container_Pop_Inl)
    with tb pop Inl show ?thesis by (auto simp: Take_body_def)
  next
    case (Inr w)
    with pop obtain ws where d: "\<not> destroy s" "container s = w # ws" "s0 = s\<lparr>container := ws\<rparr>"
      by (auto elim: container_Pop_InrE)
    show ?thesis
      using tb pop Inr d
      by (cases "state (heap s w)") (auto simp: Take_body_def)
  qed
qed

lemma Take_loop_releases:
  "Take_loop ctx s = (r, s') \<Longrightarrow>
     count_list (trace s') (CallRelease x) = count_list (trace s) (CallRelease x)"
proof (induction ctx s rule: Take_loop.induct)
  case (1 ctx s)
  obtain b s1 where b: "Take_body ctx s = (b, s1)" by (cases "Take_body ctx s")
  note fr = Take_body_releases[OF b, of x]
  show ?case
  proof (cases b)
    case (Inl res)
    with b "1.prems" have "s1 = s'" by (simp add: Take_loop.simps[of ctx s])
    with fr show ?thesis by simp
  next
    case (Inr u)
    with b "1.prems" have "Take_loop (ctx - 1) s1 = (r, s')"
      by (simp add: Take_loop.simps[of ctx s])
    with "1.IH"[OF b[symmetric] Inr] fr show ?thesis by simp
  qed
qed

lemma Take_releases:
  assumes tk: "Take ctx s = (r, s')"
  shows "count_list (trace s') (CallRelease x) = count_list (trace s) (CallRelease x)"
proof -
  obtain y s0 where pop: "container_Pop ctx s = (y, s0)" by (cases "container_Pop ctx s")
  show ?thesis
  proof (cases y)
    case (Inl e)
    with pop have "s0 = s" by (auto dest: container_Pop_Inl)
    with tk pop Inl show ?thesis by (auto simp: Take_def)
  next
    case (Inr w)
    with pop obtain ws where d: "\<not> destroy s" "container s = w # ws" "s0 = s\<lparr>container := ws\<rparr>"
      by (auto elim: container_Pop_InrE)
    show ?thesis
    proof (cases "state (heap s w) = StateReady")
      case True
      with tk pop Inr d have "s' = s0" by (simp add: Take_def)
      with d show ?thesis by simp
    next
      case False
      with tk pop Inr d have "Take_loop (ctx - 1) (Kill w s0) = (r, s')" by (simp add: Take_def)
      from Take_loop_releases[OF this, of x] d show ?thesis by simp
    qed
  qed
qed

lemma takeWorker_releases:
  assumes "takeWorker ctx op' s = (Inr w, s')"
  shows "count_list (trace s') (CallRelease x) = count_list (trace s) (CallRelease x)"
proof -
  obtain y s0 where tk: "Take ctx s = (y, s0)" by (cases "Take ctx s")
  with assms have "s0 = s'" by (auto simp: takeWorker_def split: sum.splits if_splits)
  with Take_releases[OF tk] show ?thesis by simp
qed

lemma worker_Exec_Inr:
  "worker_Exec env w p s = (Inr rsp, s') \<Longrightarrow>
     trace s' = trace s @ [CallExec w p] \<and> destroy s' = destroy s \<and>
     state (heap s' w) = StateReady \<and> num_execs (heap s' w) = num_execs (heap s w) + 1 \<and>
     (\<forall>x. x \<noteq> w \<longrightarrow> heap s' x = heap s x)"
  by (auto simp: worker_Exec_def exec_result_def split: exec_out.splits)

lemma checkMaxJobs_trace:
  "trace (checkMaxJobs cfg w s) =
     trace s @ CallRelease w #
       (if NumExecs s w \<ge> MaxJobs cfg then [CallKill w]
        else if State_Value s w = StateReady
             then (if destroy s then [CallPush w, CallKill w] else [CallPush w])
             else [CallKill w])"
  by (simp add: checkMaxJobs_def)

text \<open>
  Claim C10. An \<open>Exec\<close> that has taken a worker and got from it a reply that is not the
  stop request returns that reply, and on the way enters \<^verbatim>\<open>Release\<close> for that worker
  once and for no other worker: through \<open>checkMaxJobs\<close> when \<open>max_jobs\<close> is not 0,
  directly otherwise. The release either pushes the worker into the container or kills
  it.
\<close>

theorem Exec_releases_once:
  assumes "\<not> Debug cfg"
    and "takeWorker (pops_within env (AllocateTimeout cfg)) ''static_pool_exec'' s = (Inr w, s1)"
    and "worker_Exec env w p s1 = (Inr rsp, s2)"
    and "\<not> (Body rsp = [] \<and> Context rsp = StopRequest)"
  shows "fst (Exec cfg env p s) = Inr rsp \<and>
     snd (Exec cfg env p s) = (if MaxJobs cfg \<noteq> 0 then checkMaxJobs cfg w s2 else Release w s2) \<and>
     count_list (trace (snd (Exec cfg env p s))) (CallRelease x) =
       count_list (trace s) (CallRelease x) + (if x = w then 1 else 0) \<and>
     (trace (snd (Exec cfg env p s)) = trace s2 @ [CallRelease w, CallPush w] \<or>
      trace (snd (Exec cfg env p s)) = trace s2 @ [CallRelease w, CallKill w] \<or>
      trace (snd (Exec cfg env p s)) = trace s2 @ [CallRelease w, CallPush w, CallKill w])"
proof -
  from Exec_taken[OF assms(1-3)] assms(4)
  have r: "Exec cfg env p s =
      (Inr rsp, if MaxJobs cfg \<noteq> 0 then checkMaxJobs cfg w s2 else Release w s2)"
    by simp
  have c1: "count_list (trace s1) (CallRelease x) = count_list (trace s) (CallRelease x)"
    using assms(2) by (rule takeWorker_releases)
  have c2: "trace s2 = trace s1 @ [CallExec w p]"
    using worker_Exec_Inr[OF assms(3)] by simp
  show ?thesis
    using c1 by (auto simp: r c2 checkMaxJobs_trace)
qed

lemma demo_take_from_2:
  "takeWorker (pops_within demo_env (AllocateTimeout demo_cfg)) ''static_pool_exec''
      (demo_world\<lparr>container := [2, 3]\<rparr>) = (Inr 2, demo_world\<lparr>container := [3]\<rparr>)"
  by (simp add: takeWorker_def Take_def container_Pop_def demo_env_def demo_cfg_def
      demo_world_def demo_heap_def)

lemma demo_take_from_3:
  "takeWorker (pops_within demo_env (AllocateTimeout (demo_cfg\<lparr>MaxJobs := 0\<rparr>)))
      ''static_pool_exec'' (demo_world\<lparr>container := [3]\<rparr>) =
     (Inr 3, demo_world\<lparr>container := []\<rparr>)"
  by (simp add: takeWorker_def Take_def container_Pop_def demo_env_def demo_cfg_def
      demo_world_def demo_heap_def)

text \<open>With \<open>max_jobs = 3\<close>, handle 2 (three executions before this one) serves, is
  released once and killed by that release; with \<open>max_jobs = 0\<close>, handle 3 serves and is
  released once.\<close>

theorem Exec_releases_once_witness:
  "fst (Exec demo_cfg demo_env demo_payload (demo_world\<lparr>container := [2, 3]\<rparr>)) = Inr ok_reply \<and>
   count_list (trace (snd (Exec demo_cfg demo_env demo_payload
      (demo_world\<lparr>container := [2, 3]\<rparr>)))) (CallRelease 2) = 1 \<and>
   count_list (trace (snd (Exec (demo_cfg\<lparr>MaxJobs := 0\<rparr>) demo_env demo_payload
      (demo_world\<lparr>container := [3]\<rparr>)))) (CallRelease 3) = 1"
proof -
  let ?w2 = "demo_world\<lparr>container := [2, 3]\<rparr>"
  let ?w3 = "demo_world\<lparr>container := [3]\<rparr>"
  let ?w4 = "demo_world\<lparr>container := []\<rparr>"
  let ?c0 = "demo_cfg\<lparr>MaxJobs := 0\<rparr>"
  have d: "\<not> Debug demo_cfg" "\<not> Debug ?c0" by (simp_all add: demo_cfg_def)
  have e2: "worker_Exec demo_env 2 demo_payload ?w3 =
              (Inr ok_reply, snd (worker_Exec demo_env 2 demo_payload ?w3))"
    by (simp add: worker_Exec_def exec_result_def demo_env_def)
  have e3: "worker_Exec demo_env 3 demo_payload ?w4 =
              (Inr ok_reply, snd (worker_Exec demo_env 3 demo_payload ?w4))"
    by (simp add: worker_Exec_def exec_result_def demo_env_def)
  have ns: "\<not> (Body ok_reply = [] \<and> Context ok_reply = StopRequest)"
    by (simp add: ok_reply_def)
  have t: "trace ?w2 = []" "trace ?w3 = []" by (simp_all add: demo_world_def)
  from Exec_releases_once[OF d(1) demo_take_from_2 e2 ns, of 2]
  have a: "fst (Exec demo_cfg demo_env demo_payload ?w2) = Inr ok_reply"
    and b: "count_list (trace (snd (Exec demo_cfg demo_env demo_payload ?w2))) (CallRelease 2) =
            count_list (trace ?w2) (CallRelease 2) + (if (2::nat) = 2 then 1 else 0)"
    by blast+
  from Exec_releases_once[OF d(2) demo_take_from_3 e3 ns, of 3]
  have c: "count_list (trace (snd (Exec ?c0 demo_env demo_payload ?w3))) (CallRelease 3) =
            count_list (trace ?w3) (CallRelease 3) + (if (3::nat) = 3 then 1 else 0)"
    by blast
  show ?thesis unfolding a b c t by simp
qed

section \<open>Properties of Take\<close>

lemma Take_loop_round:
  "Take_body ctx s = (Inr u, s1) \<Longrightarrow> Take_loop ctx s = Take_loop (ctx - 1) s1"
  by (simp add: Take_loop.simps[of ctx s])

lemma Take_loop_return:
  "Take_body ctx s = (Inl r, s1) \<Longrightarrow> Take_loop ctx s = (r, s1)"
  by (simp add: Take_loop.simps[of ctx s])

text \<open>What \<open>Take\<close> hands out is Ready when it is handed out.\<close>

lemma Take_returns_Ready:
  assumes "Take ctx s = (Inr w, s')"
  shows "State_Value s' w = StateReady"
proof -
  from Take_frame_gives[OF assms] have "Take_frame s s'" "Take_gives s w s'" by simp_all
  then show ?thesis by (simp add: Take_frame_def Take_gives_def)
qed

text \<open>A failed \<open>Pop\<close> ends \<open>Take\<close>, in the loop as before it, with an error that keeps
  the kind: WatcherStopped, or the kind of the container's error.\<close>

lemma Take_error_kind: "Is k (Take_error e) = Is k e"
  by (cases "Is WatcherStopped e") (auto simp: Take_error_def dest: Is_unique)

lemma Take_Pop_fails:
  "container_Pop ctx s = (Inl e, s1) \<Longrightarrow> Take ctx s = (Inl (Take_error e), s1)"
  by (simp add: Take_def)

lemma Take_body_Pop_fails:
  "container_Pop ctx s = (Inl e, s1) \<Longrightarrow> Take_body ctx s = (Inl (Inl (Take_error e)), s1)"
  by (simp add: Take_body_def)

text \<open>A round of the loop, by the state of the worker popped.\<close>

lemma Take_body_Working:
  "container_Pop ctx s = (Inr w, s1) \<Longrightarrow> State_Value s1 w = StateWorking \<Longrightarrow>
     Take_body ctx s = (Inr (), container_Push w s1)"
  by (simp add: Take_body_def)

lemma Take_body_listed:
  "container_Pop ctx s = (Inr w, s1) \<Longrightarrow>
   State_Value s1 w \<in> {StateInactive, StateDestroyed, StateErrored, StateStopped,
                         StateInvalid, StateKilling, StateStopping} \<Longrightarrow>
     Take_body ctx s = (Inr (), Kill w s1)"
  by (auto simp: Take_body_def)

lemma Take_body_MaxJobsReached:
  "container_Pop ctx s = (Inr w, s1) \<Longrightarrow> State_Value s1 w = StateMaxJobsReached \<Longrightarrow>
     Take_body ctx s = (Inr (), s1)"
  by (simp add: Take_body_def)

text \<open>
  Claim C4. A worker \<open>Take\<close> returns is Ready when it is returned, and was Ready in the
  state \<open>Take\<close> started from. In a round of the loop: a worker popped in state Working is
  pushed back at the end of the container, itself untouched, and the loop goes round; a
  worker popped in state Inactive, Destroyed, Errored, Stopped, Invalid, Killing or
  Stopping is killed, stays out of the container, and the loop goes round, so that it is
  not what this round returns. A \<open>Pop\<close> that fails, before the loop or in it, ends \<open>Take\<close>
  with an error of the operation \<open>worker_watcher_get_free_worker\<close> and of the same kind:
  WatcherStopped for a destroyed container, the kind of the container's error (the
  deadline's) otherwise.
\<close>

theorem Take_discipline:
  "(Take ctx s = (Inr w, s') \<longrightarrow>
      State_Value s' w = StateReady \<and> State_Value s w = StateReady)
   \<and> (container_Pop ctx s = (Inr w, s1) \<and> State_Value s1 w = StateWorking \<longrightarrow>
      Take_body ctx s = (Inr (), container_Push w s1) \<and>
      heap (container_Push w s1) = heap s \<and>
      container (container_Push w s1) = container s1 @ [w] \<and>
      trace (container_Push w s1) = trace s @ [CallPush w])
   \<and> (container_Pop ctx s = (Inr w, s1) \<and>
       State_Value s1 w \<in> {StateInactive, StateDestroyed, StateErrored, StateStopped,
                             StateInvalid, StateKilling, StateStopping} \<longrightarrow>
      Take_body ctx s = (Inr (), Kill w s1) \<and>
      trace (Kill w s1) = trace s @ [CallKill w] \<and>
      container s = w # container (Kill w s1))
   \<and> (container_Pop ctx s = (Inl e, s1) \<longrightarrow>
      Take ctx s = (Inl (Take_error e), s1) \<and>
      Take_body ctx s = (Inl (Inl (Take_error e)), s1) \<and>
      Is k (Take_error e) = Is k e \<and>
      (Is WatcherStopped e \<longrightarrow>
         Take_error e = E0 ''worker_watcher_get_free_worker'' WatcherStopped) \<and>
      (\<not> Is WatcherStopped e \<longrightarrow>
         Take_error e = E ''worker_watcher_get_free_worker'' Undefined e))"
proof (intro conjI impI)
  assume tk: "Take ctx s = (Inr w, s')"
  from Take_frame_gives[OF tk] have f: "Take_frame s s'" and g: "Take_gives s w s'" by simp_all
  from g show "State_Value s w = StateReady" by (simp add: Take_gives_def)
  from tk show "State_Value s' w = StateReady" by (rule Take_returns_Ready)
next
  assume a: "container_Pop ctx s = (Inr w, s1) \<and> State_Value s1 w = StateWorking"
  then obtain ws where d: "\<not> destroy s" "container s = w # ws" "s1 = s\<lparr>container := ws\<rparr>"
    by (auto elim: container_Pop_InrE)
  from a show "Take_body ctx s = (Inr (), container_Push w s1)"
    by (simp add: Take_body_Working)
  show "heap (container_Push w s1) = heap s" using d by simp
  show "container (container_Push w s1) = container s1 @ [w]" using d by simp
  show "trace (container_Push w s1) = trace s @ [CallPush w]" using d by simp
next
  assume a: "container_Pop ctx s = (Inr w, s1) \<and>
       State_Value s1 w \<in> {StateInactive, StateDestroyed, StateErrored, StateStopped,
                             StateInvalid, StateKilling, StateStopping}"
  then obtain ws where d: "\<not> destroy s" "container s = w # ws" "s1 = s\<lparr>container := ws\<rparr>"
    by (auto elim: container_Pop_InrE)
  from a show "Take_body ctx s = (Inr (), Kill w s1)"
    by (intro Take_body_listed) simp_all
  show "trace (Kill w s1) = trace s @ [CallKill w]" using d by simp
  show "container s = w # container (Kill w s1)" using d by simp
next
  assume a: "container_Pop ctx s = (Inl e, s1)"
  then show "Take ctx s = (Inl (Take_error e), s1)" by (rule Take_Pop_fails)
  from a show "Take_body ctx s = (Inl (Inl (Take_error e)), s1)" by (rule Take_body_Pop_fails)
  show "Is k (Take_error e) = Is k e" by (rule Take_error_kind)
  show "Take_error e = E0 ''worker_watcher_get_free_worker'' WatcherStopped"
    if "Is WatcherStopped e" using that by (simp add: Take_error_def)
  show "Take_error e = E ''worker_watcher_get_free_worker'' Undefined e"
    if "\<not> Is WatcherStopped e" using that by (simp add: Take_error_def)
qed

text \<open>A container with handle 1 Invalid, handle 2 Stopped, handle 4 Working and handle 3
  Ready, in that order.\<close>

definition mixed_world :: world where
  "mixed_world =
     demo_world\<lparr>heap := demo_heap
       (1 := \<lparr>pid = 10, state = StateInvalid, num_execs = 0\<rparr>,
        2 := \<lparr>pid = 20, state = StateStopped, num_execs = 3\<rparr>,
        4 := \<lparr>pid = 40, state = StateWorking, num_execs = 1\<rparr>),
       container := [1, 2, 4, 3]\<rparr>"

lemma mixed_Take:
  "Take 12 mixed_world =
     (Inr 3, mixed_world\<lparr>container := [4], trace := [CallKill 1, CallKill 2, CallPush 4]\<rparr>)"
proof -
  let ?s1 = "Kill 1 (mixed_world\<lparr>container := [2, 4, 3]\<rparr>)"
  let ?s2 = "Kill 2 (?s1\<lparr>container := [4, 3]\<rparr>)"
  let ?s3 = "container_Push 4 (?s2\<lparr>container := [3]\<rparr>)"
  let ?s4 = "?s3\<lparr>container := [4]\<rparr>"
  have a: "Take 12 mixed_world = Take_loop 11 ?s1"
    by (simp add: Take_def container_Pop_def mixed_world_def demo_world_def)
  have "Take_body 11 ?s1 = (Inr (), ?s2)"
    by (simp add: Take_body_def container_Pop_def mixed_world_def demo_world_def)
  then have b: "Take_loop 11 ?s1 = Take_loop 10 ?s2" by (simp add: Take_loop_round)
  have "Take_body 10 ?s2 = (Inr (), ?s3)"
    by (simp add: Take_body_def container_Pop_def mixed_world_def demo_world_def)
  then have c: "Take_loop 10 ?s2 = Take_loop 9 ?s3" by (simp add: Take_loop_round)
  have "Take_body 9 ?s3 = (Inl (Inr 3), ?s4)"
    by (simp add: Take_body_def container_Pop_def container_Push_def Let_def
        mixed_world_def demo_world_def demo_heap_def)
  then have d: "Take_loop 9 ?s3 = (Inr 3, ?s4)" by (rule Take_loop_return)
  have e: "?s4 = mixed_world\<lparr>container := [4], trace := [CallKill 1, CallKill 2, CallPush 4]\<rparr>"
    by (simp add: Kill_def record_call_def container_Push_def Let_def mixed_world_def
        demo_world_def)
  show ?thesis by (simp only: a b c d e)
qed

text \<open>On that container \<open>Take\<close> kills the handles 1 and 2, pushes handle 4 back and
  returns handle 3, which is Ready; on a destroyed container it returns WatcherStopped.\<close>

theorem Take_discipline_witness:
  "State_Value (mixed_world\<lparr>container := [4],
                   trace := [CallKill 1, CallKill 2, CallPush 4]\<rparr>) 3 = StateReady \<and>
   Take_body 11 (mixed_world\<lparr>container := [2, 4, 3]\<rparr>) =
     (Inr (), Kill 2 (mixed_world\<lparr>container := [4, 3]\<rparr>)) \<and>
   Take_body 10 (mixed_world\<lparr>container := [4, 3]\<rparr>) =
     (Inr (), container_Push 4 (mixed_world\<lparr>container := [3]\<rparr>)) \<and>
   Take 12 (mixed_world\<lparr>destroy := True\<rparr>) =
     (Inl (E0 ''worker_watcher_get_free_worker'' WatcherStopped),
      mixed_world\<lparr>destroy := True\<rparr>)"
proof -
  let ?r = "mixed_world\<lparr>container := [4], trace := [CallKill 1, CallKill 2, CallPush 4]\<rparr>"
  let ?a = "mixed_world\<lparr>container := [2, 4, 3]\<rparr>"
  let ?b = "mixed_world\<lparr>container := [4, 3]\<rparr>"
  let ?c = "mixed_world\<lparr>container := [3]\<rparr>"
  let ?d = "mixed_world\<lparr>destroy := True\<rparr>"
  have h2: "container_Pop 11 ?a = (Inr 2, ?b) \<and>
       State_Value ?b 2 \<in> {StateInactive, StateDestroyed, StateErrored, StateStopped,
                             StateInvalid, StateKilling, StateStopping}"
    by (simp add: container_Pop_def mixed_world_def demo_world_def)
  have h3: "container_Pop 10 ?b = (Inr 4, ?c) \<and> State_Value ?c 4 = StateWorking"
    by (simp add: container_Pop_def mixed_world_def demo_world_def)
  have h4: "container_Pop 12 ?d = (Inl (E0 [] WatcherStopped), ?d)"
    by (simp add: container_Pop_def)
  from mixed_Take Take_discipline[where ctx = 12 and s = mixed_world and w = 3 and s' = ?r]
  have c1: "State_Value ?r 3 = StateReady" by blast
  from h2 Take_discipline[where ctx = 11 and s = ?a and w = 2 and ?s1.0 = ?b]
  have c2: "Take_body 11 ?a = (Inr (), Kill 2 ?b)" by blast
  from h3 Take_discipline[where ctx = 10 and s = ?b and w = 4 and ?s1.0 = ?c]
  have c3: "Take_body 10 ?b = (Inr (), container_Push 4 ?c)" by blast
  from h4 Take_discipline[where ctx = 12 and s = ?d and e = "E0 [] WatcherStopped" and ?s1.0 = ?d]
  have c4: "Take 12 ?d = (Inl (Take_error (E0 [] WatcherStopped)), ?d)" by blast
  show ?thesis using c1 c2 c3 c4 by (simp add: Take_error_def)
qed

section \<open>Properties of Allocate\<close>

lemma allocator_result:
  "allocator env s = (r, s1) \<Longrightarrow>
     r = spawn env (spawned s) \<and> spawned s1 = Suc (spawned s) \<and>
     heap s1 = heap s \<and> container s1 = container s \<and> destroy s1 = destroy s \<and>
     workers s1 = workers s \<and> numWorkers s1 = numWorkers s \<and>
     allocateTimeout s1 = allocateTimeout s \<and>
     trace s1 = trace s @ CallSpawn #
       (case r of Inl e \<Rightarrow> []
        | Inr sw \<Rightarrow> [EventPush (PoolEvent EventWorkerConstruct (Some sw) None)])"
  by (auto simp: allocator_def Let_def split: sum.splits)

text \<open>
  The retry loop, entered \<open>t\<close> milliseconds after the first failure with \<open>e\<close> the latest
  error: it leaves the cohort, the container and the workers alone; it makes \<open>n\<close> calls
  of the allocator, one every 500 milliseconds, each but a successful last one failing,
  and none at a time when the timer has fired.
\<close>

definition retry_frame :: "world \<Rightarrow> world \<Rightarrow> bool" where
  "retry_frame s s' =
     (heap s' = heap s \<and> container s' = container s \<and> destroy s' = destroy s \<and>
      workers s' = workers s \<and> allocateTimeout s' = allocateTimeout s)"

lemma Allocate_retry_result:
  "Allocate_retry env T e t s = (r, s') \<Longrightarrow>
     retry_frame s s' \<and>
     (\<exists>n. spawned s' = spawned s + n \<and>
        (\<forall>i<n. \<not> timer_fires env T (t + 500 * int i)) \<and>
        (case r of
           Inl err \<Rightarrow>
             (\<forall>i<n. isl (spawn env (spawned s + i))) \<and>
             timer_fires env T (t + 500 * int n) \<and>
             numWorkers s' = numWorkers s - 1 \<and>
             err = E ''worker_watcher_allocate_new'' WorkerAllocate
                     (if n = 0 then e else projl (spawn env (spawned s + n - 1)))
         | Inr sw \<Rightarrow>
             0 < n \<and> (\<forall>i<n - 1. isl (spawn env (spawned s + i))) \<and>
             spawn env (spawned s + n - 1) = Inr sw \<and>
             numWorkers s' = numWorkers s))"
proof (induction env T e t s arbitrary: r s' rule: Allocate_retry.induct)
  case (1 env T e t s)
  show ?case
  proof (cases "timer_fires env T t")
    case True
    with "1.prems" have "r = Inl (E ''worker_watcher_allocate_new'' WorkerAllocate e)"
      and "s' = s\<lparr>numWorkers := numWorkers s + NOT 0\<rparr>"
      by (simp_all add: Allocate_retry.simps[of env T e t s])
    with True show ?thesis
      by (simp add: retry_frame_def)
  next
    case False
    obtain a s1 where al: "allocator env s = (a, s1)" by (cases "allocator env s")
    note ar = allocator_result[OF al]
    show ?thesis
    proof (cases a)
      case (Inr sw)
      with al False "1.prems" have "r = Inr sw" "s' = s1"
        by (simp_all add: Allocate_retry.simps[of env T e t s])
      have sw: "spawn env (spawned s) = Inr sw" using ar Inr by simp
      have f: "retry_frame s s'" using ar \<open>s' = s1\<close> by (simp add: retry_frame_def)
      have "spawned s' = spawned s + 1 \<and>
        (\<forall>i<1. \<not> timer_fires env T (t + 500 * int i)) \<and>
        (case r of
           Inl err \<Rightarrow>
             (\<forall>i<1. isl (spawn env (spawned s + i))) \<and>
             timer_fires env T (t + 500 * int 1) \<and>
             numWorkers s' = numWorkers s - 1 \<and>
             err = E ''worker_watcher_allocate_new'' WorkerAllocate
                     (if (1::nat) = 0 then e else projl (spawn env (spawned s + 1 - 1)))
         | Inr sw \<Rightarrow>
             0 < (1::nat) \<and> (\<forall>i<1 - 1. isl (spawn env (spawned s + i))) \<and>
             spawn env (spawned s + 1 - 1) = Inr sw \<and>
             numWorkers s' = numWorkers s)"
        using ar sw False \<open>r = Inr sw\<close> \<open>s' = s1\<close> by simp
      with f show ?thesis by blast
    next
      case (Inl e')
      let ?s2 = "events_Push (WorkerEvent EventWorkerError None
                   (Some (E ''worker_watcher_allocate_new'' Undefined
                      (Errorf ''can't allocate worker, retry attempt failed: %v'' [e'])))) s1"
      from al False Inl "1.prems" have rec: "Allocate_retry env T e' (t + 500) ?s2 = (r, s')"
        by (simp add: Allocate_retry.simps[of env T e t s])
      from "1.IH"[OF False al[symmetric] Inl rec]
      obtain n where fr: "retry_frame ?s2 s'"
        and sp: "spawned s' = spawned ?s2 + n"
        and tm: "\<forall>i<n. \<not> timer_fires env T (t + 500 + 500 * int i)"
        and rs: "(case r of
           Inl err \<Rightarrow>
             (\<forall>i<n. isl (spawn env (spawned ?s2 + i))) \<and>
             timer_fires env T (t + 500 + 500 * int n) \<and>
             numWorkers s' = numWorkers ?s2 - 1 \<and>
             err = E ''worker_watcher_allocate_new'' WorkerAllocate
                     (if n = 0 then e' else projl (spawn env (spawned ?s2 + n - 1)))
         | Inr sw \<Rightarrow>
             0 < n \<and> (\<forall>i<n - 1. isl (spawn env (spawned ?s2 + i))) \<and>
             spawn env (spawned ?s2 + n - 1) = Inr sw \<and>
             numWorkers s' = numWorkers ?s2)"
        by auto
      have s2: "spawned ?s2 = Suc (spawned s)" "numWorkers ?s2 = numWorkers s"
        using ar by simp_all
      have e': "spawn env (spawned s) = Inl e'" using ar Inl by simp
      have f: "retry_frame s s'" using fr ar by (simp add: retry_frame_def)
      have sp': "spawned s' = spawned s + Suc n" using sp s2 by simp
      have tm': "\<forall>i<Suc n. \<not> timer_fires env T (t + 500 * int i)"
        using tm False by (auto simp: less_Suc_eq_0_disj algebra_simps)
      have rs': "(case r of
           Inl err \<Rightarrow>
             (\<forall>i<Suc n. isl (spawn env (spawned s + i))) \<and>
             timer_fires env T (t + 500 * int (Suc n)) \<and>
             numWorkers s' = numWorkers s - 1 \<and>
             err = E ''worker_watcher_allocate_new'' WorkerAllocate
                     (if Suc n = 0 then e else projl (spawn env (spawned s + Suc n - 1)))
         | Inr sw \<Rightarrow>
             0 < Suc n \<and> (\<forall>i<Suc n - 1. isl (spawn env (spawned s + i))) \<and>
             spawn env (spawned s + Suc n - 1) = Inr sw \<and>
             numWorkers s' = numWorkers s)"
      proof (cases r)
        case (Inl err)
        with rs s2 e' show ?thesis
          by (cases n) (auto simp: less_Suc_eq_0_disj algebra_simps)
      next
        case (Inr sw)
        with rs s2 e' show ?thesis
          by (cases n) (auto simp: less_Suc_eq_0_disj algebra_simps)
      qed
      from f sp' tm' rs' show ?thesis by blast
    qed
  qed
qed

lemma Allocate_done_simps [simp]:
  "heap (Allocate_done sw s) = heap s"
  "workers (Allocate_done sw s) = workers s @ [sw]"
  "numWorkers (Allocate_done sw s) = numWorkers s"
  "spawned (Allocate_done sw s) = spawned s"
  "destroy (Allocate_done sw s) = destroy s"
  "container (Allocate_done sw s) =
     (if State_Value s sw = StateReady \<and> \<not> destroy s then container s @ [sw] else container s)"
  "trace (Allocate_done sw s) =
     trace s @ [GoWait sw, CallRelease sw] @
       (if State_Value s sw = StateReady
        then (if destroy s then [CallPush sw, CallKill sw] else [CallPush sw])
        else [CallKill sw])"
  by (simp_all add: Allocate_done_def addToWatch_def Let_def)

text \<open>A factory that cannot start a worker.\<close>

definition failing_env :: env where
  "failing_env = demo_env\<lparr>spawn := (\<lambda>n. Inl (Str ''spawn failed''))\<rparr>"

text \<open>
  Claim C5. A terminal failure of \<open>Allocate\<close> does not always take one off \<open>numWorkers\<close>.
  With a factory that cannot start a worker and no allocate timeout
  (\<open>allocateTimeout = 0\<close>), \<open>Allocate\<close> on the demo world returns a WorkerAllocate error
  after one call of the factory and leaves \<open>numWorkers\<close> at 3. With the allocate timeout
  of the demo world, 1200 milliseconds, the same factory is called three times (at 0, 500
  and 1000 milliseconds), the same error is returned from the timer case, and
  \<open>numWorkers\<close> is 2.
\<close>

theorem Allocate_failure_without_decrement:
  "fst (Allocate failing_env (demo_world\<lparr>allocateTimeout := 0\<rparr>)) =
     Some (E ''worker_watcher_allocate_new'' WorkerAllocate (Str ''spawn failed'')) \<and>
   numWorkers (demo_world\<lparr>allocateTimeout := 0\<rparr>) = 3 \<and>
   numWorkers (snd (Allocate failing_env (demo_world\<lparr>allocateTimeout := 0\<rparr>))) = 3 \<and>
   spawned (snd (Allocate failing_env (demo_world\<lparr>allocateTimeout := 0\<rparr>))) = 1 \<and>
   fst (Allocate failing_env demo_world) =
     Some (E ''worker_watcher_allocate_new'' WorkerAllocate (Str ''spawn failed'')) \<and>
   numWorkers demo_world = 3 \<and>
   numWorkers (snd (Allocate failing_env demo_world)) = 2 \<and>
   spawned (snd (Allocate failing_env demo_world)) = 3"
  by (simp add: Allocate_def allocator_def Let_def failing_env_def demo_env_def demo_world_def
      Allocate_retry.simps timer_fires_def)

text \<open>
  What \<open>Allocate\<close> does, case by case. With no allocate timeout, a failure of the first
  attempt is returned at once as a WorkerAllocate error: the allocator has been called
  once, and \<open>numWorkers\<close> and the cohort are unchanged. With an allocate timeout, a
  failed \<open>Allocate\<close> returns a WorkerAllocate error and has taken one off \<open>numWorkers\<close>
  (modulo \<open>2^64\<close>); the cohort and the container are unchanged; the allocator has been
  called \<open>n + 1\<close> times, always failing: once at the start and then every 500
  milliseconds, at \<open>500, 1000, ..., 500 n\<close>, none later than the timeout, and the timeout
  has passed by \<open>500 (n + 1)\<close>. A successful \<open>Allocate\<close>, at the first attempt or at a
  retry, appends the new worker to the cohort, starts its wait task and releases it.
\<close>

lemma Allocate_outcomes:
  "(allocateTimeout s = 0 \<and> spawn env (spawned s) = Inl e \<longrightarrow>
      fst (Allocate env s) = Some (E ''worker_watcher_allocate_new'' WorkerAllocate e) \<and>
      numWorkers (snd (Allocate env s)) = numWorkers s \<and>
      spawned (snd (Allocate env s)) = Suc (spawned s) \<and>
      workers (snd (Allocate env s)) = workers s)
   \<and> (allocateTimeout s \<noteq> 0 \<and> Allocate env s = (Some err, s') \<longrightarrow>
      Is WorkerAllocate err \<and>
      numWorkers s' = numWorkers s - 1 \<and>
      workers s' = workers s \<and> container s' = container s \<and>
      (\<exists>n. spawned s' = spawned s + Suc n \<and>
           (\<forall>i<Suc n. isl (spawn env (spawned s + i))) \<and>
           (\<forall>i<n. 500 * (int i + 1) \<le> allocateTimeout s) \<and>
           allocateTimeout s \<le> 500 * (int n + 1)))
   \<and> (Allocate env s = (None, s') \<longrightarrow>
      (\<exists>sw pre. spawn env (spawned s' - 1) = Inr sw \<and>
           workers s' = workers s @ [sw] \<and>
           numWorkers s' = numWorkers s \<and>
           trace s' = pre @ [GoWait sw, CallRelease sw] @
             (if State_Value s sw = StateReady
              then (if destroy s then [CallPush sw, CallKill sw] else [CallPush sw])
              else [CallKill sw]) \<and>
           container s' =
             (if State_Value s sw = StateReady \<and> \<not> destroy s then container s @ [sw]
              else container s)))"
proof (intro conjI impI)
  assume a: "allocateTimeout s = 0 \<and> spawn env (spawned s) = Inl e"
  then have r: "Allocate env s =
      (Some (E ''worker_watcher_allocate_new'' WorkerAllocate e),
       events_Push (WorkerEvent EventWorkerError None
         (Some (E ''worker_watcher_allocate_new'' Undefined
            (Errorf ''can't allocate worker: %v'' [e]))))
         ((record_call CallSpawn s)\<lparr>spawned := Suc (spawned s)\<rparr>))"
    by (simp add: Allocate_def allocator_def Let_def)
  show "fst (Allocate env s) = Some (E ''worker_watcher_allocate_new'' WorkerAllocate e)"
    by (simp add: r)
  show "numWorkers (snd (Allocate env s)) = numWorkers s" by (simp add: r)
  show "spawned (snd (Allocate env s)) = Suc (spawned s)" by (simp add: r)
  show "workers (snd (Allocate env s)) = workers s" by (simp add: r)
next
  assume a: "allocateTimeout s \<noteq> 0 \<and> Allocate env s = (Some err, s')"
  obtain x s1 where al: "allocator env s = (x, s1)" by (cases "allocator env s")
  note ar = allocator_result[OF al]
  from a al obtain e where x: "x = Inl e"
    by (cases x) (auto simp: Allocate_def)
  let ?s2 = "events_Push (WorkerEvent EventWorkerError None
               (Some (E ''worker_watcher_allocate_new'' Undefined
                  (Errorf ''can't allocate worker: %v'' [e])))) s1"
  have T: "allocateTimeout ?s2 = allocateTimeout s" using ar by simp
  obtain y s3 where rt: "Allocate_retry env (allocateTimeout s) e 500 ?s2 = (y, s3)"
    by (cases "Allocate_retry env (allocateTimeout s) e 500 ?s2")
  from a al x T rt have y: "y = Inl err" and s3: "s3 = s'"
    by (auto simp: Allocate_def Let_def split: sum.splits)
  from Allocate_retry_result[OF rt] y s3
  obtain n where fr: "retry_frame ?s2 s'"
    and sp: "spawned s' = spawned ?s2 + n"
    and tm: "\<forall>i<n. \<not> timer_fires env (allocateTimeout s) (500 + 500 * int i)"
    and fl: "\<forall>i<n. isl (spawn env (spawned ?s2 + i))"
    and tf: "timer_fires env (allocateTimeout s) (500 + 500 * int n)"
    and nw: "numWorkers s' = numWorkers ?s2 - 1"
    and er: "err = E ''worker_watcher_allocate_new'' WorkerAllocate
                     (if n = 0 then e else projl (spawn env (spawned ?s2 + n - 1)))"
    by auto
  show "Is WorkerAllocate err" by (simp add: er)
  show "numWorkers s' = numWorkers s - 1" using nw ar by simp
  show "workers s' = workers s" using fr ar by (simp add: retry_frame_def)
  show "container s' = container s" using fr ar by (simp add: retry_frame_def)
  have s2: "spawned ?s2 = Suc (spawned s)" using ar by simp
  have "spawn env (spawned s) = Inl e" using ar x by simp
  then have first: "isl (spawn env (spawned s))" by simp
  have "spawned s' = spawned s + Suc n" using sp s2 by simp
  moreover have "\<forall>i<Suc n. isl (spawn env (spawned s + i))"
    using fl first s2 by (auto simp: less_Suc_eq_0_disj)
  moreover have "\<forall>i<n. 500 * (int i + 1) \<le> allocateTimeout s"
    using tm by (auto simp: timer_fires_def)
  moreover have "allocateTimeout s \<le> 500 * (int n + 1)"
    using tf by (auto simp: timer_fires_def)
  ultimately show "\<exists>n. spawned s' = spawned s + Suc n \<and>
           (\<forall>i<Suc n. isl (spawn env (spawned s + i))) \<and>
           (\<forall>i<n. 500 * (int i + 1) \<le> allocateTimeout s) \<and>
           allocateTimeout s \<le> 500 * (int n + 1)" by blast
next
  assume a: "Allocate env s = (None, s')"
  let ?goal = "\<exists>sw pre. spawn env (spawned s' - 1) = Inr sw \<and>
           workers s' = workers s @ [sw] \<and>
           numWorkers s' = numWorkers s \<and>
           trace s' = pre @ [GoWait sw, CallRelease sw] @
             (if State_Value s sw = StateReady
              then (if destroy s then [CallPush sw, CallKill sw] else [CallPush sw])
              else [CallKill sw]) \<and>
           container s' =
             (if State_Value s sw = StateReady \<and> \<not> destroy s then container s @ [sw]
              else container s)"
  obtain x s1 where al: "allocator env s = (x, s1)" by (cases "allocator env s")
  note ar = allocator_result[OF al]
  show ?goal
  proof (cases x)
    case (Inr sw)
    with a al have s': "s' = Allocate_done sw s1" by (simp add: Allocate_def)
    have "spawn env (spawned s' - 1) = Inr sw" using ar Inr s' by simp
    moreover have "workers s' = workers s @ [sw]" "numWorkers s' = numWorkers s"
      using ar s' by simp_all
    moreover have "trace s' = trace s1 @ [GoWait sw, CallRelease sw] @
             (if State_Value s sw = StateReady
              then (if destroy s then [CallPush sw, CallKill sw] else [CallPush sw])
              else [CallKill sw])"
      using ar s' by simp
    moreover have "container s' =
             (if State_Value s sw = StateReady \<and> \<not> destroy s then container s @ [sw]
              else container s)"
      using ar s' by simp
    ultimately show ?thesis by blast
  next
    case (Inl e)
    let ?s2 = "events_Push (WorkerEvent EventWorkerError None
                 (Some (E ''worker_watcher_allocate_new'' Undefined
                    (Errorf ''can't allocate worker: %v'' [e])))) s1"
    have T: "allocateTimeout ?s2 = allocateTimeout s" using ar by simp
    obtain y s3 where rt: "Allocate_retry env (allocateTimeout s) e 500 ?s2 = (y, s3)"
      by (cases "Allocate_retry env (allocateTimeout s) e 500 ?s2")
    from a al Inl T rt obtain sw where y: "y = Inr sw" and s': "s' = Allocate_done sw s3"
      by (cases y) (auto simp: Allocate_def Let_def split: if_splits)
    from Allocate_retry_result[OF rt] y
    obtain n where fr: "retry_frame ?s2 s3"
      and sp: "spawned s3 = spawned ?s2 + n" and n: "0 < n"
      and sw: "spawn env (spawned ?s2 + n - 1) = Inr sw"
      and nw: "numWorkers s3 = numWorkers ?s2"
      by auto
    have h: "heap s3 = heap s" "destroy s3 = destroy s" "workers s3 = workers s"
      "container s3 = container s"
      using fr ar by (simp_all add: retry_frame_def)
    have "spawn env (spawned s' - 1) = Inr sw" using sw sp s' by simp
    moreover have "workers s' = workers s @ [sw]" "numWorkers s' = numWorkers s"
      using h nw ar s' by simp_all
    moreover have "trace s' = trace s3 @ [GoWait sw, CallRelease sw] @
             (if State_Value s sw = StateReady
              then (if destroy s then [CallPush sw, CallKill sw] else [CallPush sw])
              else [CallKill sw])"
      using h s' by simp
    moreover have "container s' =
             (if State_Value s sw = StateReady \<and> \<not> destroy s then container s @ [sw]
              else container s)"
      using h s' by simp
    ultimately show ?thesis by blast
  qed
qed

text \<open>With a factory that always fails: no timeout leaves \<open>numWorkers\<close> at 3; a timeout
  of 1200 milliseconds takes it to 2. With the factory of the demo world, the cohort
  grows to four workers.\<close>

lemma Allocate_outcomes_on_demo_world:
  "numWorkers (snd (Allocate failing_env (demo_world\<lparr>allocateTimeout := 0\<rparr>))) = 3 \<and>
   numWorkers (snd (Allocate failing_env demo_world)) = 2 \<and>
   length (workers (snd (Allocate demo_env demo_world))) = 4"
proof -
  let ?w0 = "demo_world\<lparr>allocateTimeout := 0\<rparr>"
  have a: "allocateTimeout ?w0 = 0 \<and>
           spawn failing_env (spawned ?w0) = Inl (Str ''spawn failed'')"
    by (simp add: failing_env_def)
  have n: "numWorkers ?w0 = 3" "numWorkers demo_world = 3" "workers demo_world = [1, 2, 3]"
    by (simp_all add: demo_world_def)
  from a Allocate_outcomes[of ?w0 failing_env "Str ''spawn failed''"]
  have c1: "numWorkers (snd (Allocate failing_env ?w0)) = numWorkers ?w0" by blast
  have "fst (Allocate failing_env demo_world) =
          Some (E ''worker_watcher_allocate_new'' WorkerAllocate (Str ''spawn failed''))"
    by (simp add: Allocate_def allocator_def Let_def failing_env_def demo_env_def
        demo_world_def Allocate_retry.simps timer_fires_def)
  then have b: "allocateTimeout demo_world \<noteq> 0 \<and>
      Allocate failing_env demo_world =
        (Some (E ''worker_watcher_allocate_new'' WorkerAllocate (Str ''spawn failed'')),
         snd (Allocate failing_env demo_world))"
    by (simp add: prod_eq_iff demo_world_def)
  from b Allocate_outcomes[of demo_world failing_env _
      "E ''worker_watcher_allocate_new'' WorkerAllocate (Str ''spawn failed'')"
      "snd (Allocate failing_env demo_world)"]
  have c2: "numWorkers (snd (Allocate failing_env demo_world)) = numWorkers demo_world - 1"
    by blast
  have "fst (Allocate demo_env demo_world) = None"
    by (simp add: Allocate_def allocator_def Let_def demo_env_def demo_world_def)
  then have c: "Allocate demo_env demo_world = (None, snd (Allocate demo_env demo_world))"
    by (simp add: prod_eq_iff)
  from c Allocate_outcomes[of demo_world demo_env _ _ "snd (Allocate demo_env demo_world)"]
  obtain sw where "workers (snd (Allocate demo_env demo_world)) = workers demo_world @ [sw]"
    by blast
  then have c3: "length (workers (snd (Allocate demo_env demo_world))) = 4"
    by (simp add: n)
  show ?thesis unfolding c1 c2 c3 n by simp
qed

section \<open>Properties of Destroy\<close>

text \<open>The state the tick number \<open>k\<close> (counting from 0) finds: what the other tasks have
  made of the state \<open>Destroy\<close> started from, in the periods up to that tick.\<close>

definition seen_at_tick :: "(world \<Rightarrow> world) list \<Rightarrow> world \<Rightarrow> nat \<Rightarrow> world" where
  "seen_at_tick others s k = fold (\<lambda>f x. f x) (take (Suc k) others) s"

lemma seen_at_tick_Nil [simp]: "seen_at_tick [] s k = s"
  by (simp add: seen_at_tick_def)

lemma seen_at_tick_Cons_0 [simp]: "seen_at_tick (f # fs) s 0 = f s"
  by (simp add: seen_at_tick_def)

lemma seen_at_tick_Cons_Suc [simp]: "seen_at_tick (f # fs) s (Suc k) = seen_at_tick fs (f s) k"
  by (simp add: seen_at_tick_def)

lemma Destroy_loop_first:
  "(\<forall>j<k. Destroy_tick (seen_at_tick fs s j) = None) \<Longrightarrow>
   Destroy_tick (seen_at_tick fs s k) = Some r \<Longrightarrow>
     Destroy_loop fs t s = Some (r, t + Destroy_period * (int k + 1))"
proof (induction fs arbitrary: s t k)
  case Nil
  have "k = 0"
  proof (rule ccontr)
    assume "k \<noteq> 0"
    then have "0 < k" by simp
    with Nil.prems(1) have "Destroy_tick (seen_at_tick [] s 0) = None" by blast
    with Nil.prems(2) show False by simp
  qed
  with Nil.prems(2) show ?case by simp
next
  case (Cons f fs)
  show ?case
  proof (cases k)
    case 0
    with Cons.prems(2) show ?thesis by simp
  next
    case (Suc k')
    with Cons.prems(1) have n0: "Destroy_tick (f s) = None" by force
    have a: "\<forall>j<k'. Destroy_tick (seen_at_tick fs (f s) j) = None"
    proof (intro allI impI)
      fix j assume "j < k'"
      then have "Suc j < k" using Suc by simp
      with Cons.prems(1) have "Destroy_tick (seen_at_tick (f # fs) s (Suc j)) = None" by blast
      then show "Destroy_tick (seen_at_tick fs (f s) j) = None" by simp
    qed
    have b: "Destroy_tick (seen_at_tick fs (f s) k') = Some r"
      using Cons.prems(2) Suc by simp
    from Cons.IH[OF a b, of "t + Destroy_period"] n0 Suc show ?thesis
      by (simp add: algebra_simps)
  qed
qed

lemma Destroy_loop_never:
  "(\<forall>j. Destroy_tick (seen_at_tick fs s j) = None) \<Longrightarrow> Destroy_loop fs t s = None"
proof (induction fs arbitrary: s t)
  case Nil
  then have "Destroy_tick (seen_at_tick [] s 0) = None" by blast
  then show ?case by simp
next
  case (Cons f fs)
  from Cons.prems have n0: "Destroy_tick (seen_at_tick (f # fs) s 0) = None" by blast
  have "\<forall>j. Destroy_tick (seen_at_tick fs (f s) j) = None"
  proof
    fix j
    from Cons.prems have "Destroy_tick (seen_at_tick (f # fs) s (Suc j)) = None" by blast
    then show "Destroy_tick (seen_at_tick fs (f s) j) = None" by simp
  qed
  from Cons.IH[OF this, of "t + Destroy_period"] n0 show ?case by simp
qed

lemma Destroy_workers_simps [simp]:
  "workers (Destroy_workers ws s) = workers s"
  "container (Destroy_workers ws s) = container s"
  "destroy (Destroy_workers ws s) = destroy s"
  "numWorkers (Destroy_workers ws s) = numWorkers s"
  "locked (Destroy_workers ws s) = locked s"
  "trace (Destroy_workers ws s) = trace s @ map CallKill ws"
  by (induction ws arbitrary: s; simp)+

lemma Destroy_workers_state:
  "State_Value (Destroy_workers ws s) w =
     (if w \<in> set ws then StateDestroyed else State_Value s w)"
  by (induction ws arbitrary: s) auto

text \<open>
  Claim C6. \<open>Destroy\<close> starts by destroying the container. Whatever its context, if the
  ticks \<open>0, ..., k - 1\<close> find a cohort whose length is not \<open>numWorkers\<close> and tick \<open>k\<close>
  finds the two equal, \<open>Destroy\<close> returns after \<open>100 (k + 1)\<close> milliseconds, and the state
  it returns is the one tick \<open>k\<close> found, with every member of the cohort set to Destroyed
  and then killed, in the cohort's order, and with the watcher's mutex held: up to that
  tick \<open>Destroy\<close> itself has done nothing but destroy the container. If no tick finds the
  two equal, \<open>Destroy\<close> does not return.
\<close>

theorem Destroy_waits_for_cohort:
  "destroy (container_Destroy s) \<and>
   trace (container_Destroy s) = trace s @ [CallDestroy] \<and>
   ((\<forall>j<k. numWorkers (seen_at_tick others (container_Destroy s) j) \<noteq>
             of_nat (length (workers (seen_at_tick others (container_Destroy s) j)))) \<and>
     numWorkers (seen_at_tick others (container_Destroy s) k) =
       of_nat (length (workers (seen_at_tick others (container_Destroy s) k))) \<longrightarrow>
     Destroy ctx_cancelled others s =
       Some (Destroy_workers (workers (seen_at_tick others (container_Destroy s) k))
               ((seen_at_tick others (container_Destroy s) k)\<lparr>locked := True\<rparr>),
             100 * (int k + 1)) \<and>
     (\<forall>w \<in> set (workers (seen_at_tick others (container_Destroy s) k)).
        State_Value (Destroy_workers (workers (seen_at_tick others (container_Destroy s) k))
               ((seen_at_tick others (container_Destroy s) k)\<lparr>locked := True\<rparr>)) w =
          StateDestroyed) \<and>
     trace (Destroy_workers (workers (seen_at_tick others (container_Destroy s) k))
               ((seen_at_tick others (container_Destroy s) k)\<lparr>locked := True\<rparr>)) =
       trace (seen_at_tick others (container_Destroy s) k) @
         map CallKill (workers (seen_at_tick others (container_Destroy s) k)) \<and>
     locked (Destroy_workers (workers (seen_at_tick others (container_Destroy s) k))
               ((seen_at_tick others (container_Destroy s) k)\<lparr>locked := True\<rparr>))) \<and>
   ((\<forall>j. numWorkers (seen_at_tick others (container_Destroy s) j) \<noteq>
             of_nat (length (workers (seen_at_tick others (container_Destroy s) j)))) \<longrightarrow>
     Destroy ctx_cancelled others s = None)"
proof (intro conjI impI)
  show "destroy (container_Destroy s)" by (simp add: container_Destroy_def)
  show "trace (container_Destroy s) = trace s @ [CallDestroy]"
    by (simp add: container_Destroy_def)
next
  let ?s0 = "container_Destroy s"
  assume a: "(\<forall>j<k. numWorkers (seen_at_tick others ?s0 j) \<noteq>
             of_nat (length (workers (seen_at_tick others ?s0 j)))) \<and>
     numWorkers (seen_at_tick others ?s0 k) =
       of_nat (length (workers (seen_at_tick others ?s0 k)))"
  then have n: "\<forall>j<k. Destroy_tick (seen_at_tick others ?s0 j) = None"
    and y: "Destroy_tick (seen_at_tick others ?s0 k) =
            Some (Destroy_workers (workers (seen_at_tick others ?s0 k))
                    ((seen_at_tick others ?s0 k)\<lparr>locked := True\<rparr>))"
    by (simp_all add: Destroy_tick_def)
  from Destroy_loop_first[OF n y, of 0]
  show "Destroy ctx_cancelled others s =
       Some (Destroy_workers (workers (seen_at_tick others ?s0 k))
               ((seen_at_tick others ?s0 k)\<lparr>locked := True\<rparr>),
             100 * (int k + 1))"
    by (simp add: Destroy_def Destroy_period_def)
  show "\<forall>w \<in> set (workers (seen_at_tick others ?s0 k)).
        State_Value (Destroy_workers (workers (seen_at_tick others ?s0 k))
               ((seen_at_tick others ?s0 k)\<lparr>locked := True\<rparr>)) w = StateDestroyed"
    using Destroy_workers_state by simp
  show "trace (Destroy_workers (workers (seen_at_tick others ?s0 k))
               ((seen_at_tick others ?s0 k)\<lparr>locked := True\<rparr>)) =
       trace (seen_at_tick others ?s0 k) @ map CallKill (workers (seen_at_tick others ?s0 k))"
    by simp
  show "locked (Destroy_workers (workers (seen_at_tick others ?s0 k))
               ((seen_at_tick others ?s0 k)\<lparr>locked := True\<rparr>))"
    by simp
next
  let ?s0 = "container_Destroy s"
  assume "\<forall>j. numWorkers (seen_at_tick others ?s0 j) \<noteq>
             of_nat (length (workers (seen_at_tick others ?s0 j)))"
  then have "\<forall>j. Destroy_tick (seen_at_tick others ?s0 j) = None"
    by (simp add: Destroy_tick_def)
  from Destroy_loop_never[OF this] show "Destroy ctx_cancelled others s = None"
    by (simp add: Destroy_def)
qed

text \<open>A state in which one of three workers is out of the cohort, and other tasks that
  do nothing in the first period and bring handle 3 back into the cohort in the
  second.\<close>

definition busy_world :: world where
  "busy_world = demo_world\<lparr>workers := [1, 2]\<rparr>"

definition busy_others :: "(world \<Rightarrow> world) list" where
  "busy_others = [\<lambda>s. s, \<lambda>s. s\<lparr>workers := workers s @ [3]\<rparr>]"

text \<open>With a cancelled context: the first tick finds two workers for a target of three,
  the second finds three, and \<open>Destroy\<close> returns after 200 milliseconds having killed the
  three. If nothing brings the third worker back, it does not return.\<close>

theorem Destroy_waits_for_cohort_witness:
  "map_option snd (Destroy True busy_others busy_world) = Some 200 \<and>
   map_option (trace \<circ> fst) (Destroy True busy_others busy_world) =
     Some [CallDestroy, CallKill 1, CallKill 2, CallKill 3] \<and>
   Destroy True [] busy_world = None"
proof -
  let ?s0 = "container_Destroy busy_world"
  have w: "workers busy_world = [1, 2]" "numWorkers busy_world = 3" "trace busy_world = []"
    by (simp_all add: busy_world_def demo_world_def)
  have s0: "workers ?s0 = [1, 2]" "numWorkers ?s0 = 3" "trace ?s0 = [CallDestroy]"
    by (simp_all add: container_Destroy_def w)
  have k0: "seen_at_tick busy_others ?s0 0 = ?s0"
    by (simp add: busy_others_def)
  have k1: "seen_at_tick busy_others ?s0 (Suc 0) = ?s0\<lparr>workers := [1, 2, 3]\<rparr>"
    by (simp add: busy_others_def s0)
  have a: "(\<forall>j<Suc 0. numWorkers (seen_at_tick busy_others ?s0 j) \<noteq>
             of_nat (length (workers (seen_at_tick busy_others ?s0 j)))) \<and>
     numWorkers (seen_at_tick busy_others ?s0 (Suc 0)) =
       of_nat (length (workers (seen_at_tick busy_others ?s0 (Suc 0))))"
    by (simp add: k0 k1 s0)
  have b: "\<forall>j. numWorkers (seen_at_tick [] ?s0 j) \<noteq>
             of_nat (length (workers (seen_at_tick [] ?s0 j)))"
    by (simp add: s0)
  from a Destroy_waits_for_cohort[of busy_world "Suc 0" busy_others True]
  have c1: "Destroy True busy_others busy_world =
       Some (Destroy_workers (workers (seen_at_tick busy_others ?s0 (Suc 0)))
               ((seen_at_tick busy_others ?s0 (Suc 0))\<lparr>locked := True\<rparr>),
             100 * (int (Suc 0) + 1))"
    by blast
  from b Destroy_waits_for_cohort[of busy_world "Suc 0" "[]" True]
  have c2: "Destroy True [] busy_world = None" by blast
  show ?thesis unfolding c1 c2 k1 by (simp add: s0)
qed

section \<open>Properties of the debug path\<close>

lemma exec_result_frame:
  "exec_result out w s = (r, s') \<Longrightarrow>
     trace s' = trace s \<and> workers s' = workers s \<and> container s' = container s \<and>
     destroy s' = destroy s \<and> numWorkers s' = numWorkers s"
  by (auto simp: exec_result_def split: exec_out.splits)

lemma worker_Exec_frame:
  "worker_Exec env w p s = (r, s') \<Longrightarrow>
     trace s' = trace s @ [CallExec w p] \<and> workers s' = workers s \<and>
     container s' = container s \<and> destroy s' = destroy s \<and> numWorkers s' = numWorkers s"
  by (auto simp: worker_Exec_def dest!: exec_result_frame)

lemma worker_ExecWithTTL_frame:
  "worker_ExecWithTTL env ctx w p s = (r, s') \<Longrightarrow>
     trace s' = trace s @ [CallExecTTL w p] \<and> workers s' = workers s \<and>
     container s' = container s \<and> destroy s' = destroy s \<and> numWorkers s' = numWorkers s"
  by (auto simp: worker_ExecWithTTL_def dest!: exec_result_frame)

lemma execDebug_frame:
  "workers (snd (execDebug env p s)) = workers s \<and>
   container (snd (execDebug env p s)) = container s \<and>
   spawned (snd (execDebug env p s)) = Suc (spawned s) \<and>
   (\<exists>rest. trace (snd (execDebug env p s)) = trace s @ CallSpawn # rest \<and>
           CallSpawn \<notin> set rest)"
proof -
  obtain a s1 where al: "allocator env s = (a, s1)" by (cases "allocator env s")
  note ar = allocator_result[OF al, THEN conjunct2]
  show ?thesis
  proof (cases a)
    case (Inl e)
    with al ar show ?thesis by (simp add: execDebug_def)
  next
    case (Inr sw)
    obtain r s2 where ex: "worker_Exec env sw p s1 = (r, s2)"
      by (cases "worker_Exec env sw p s1")
    have sp: "spawned s2 = spawned s1"
      using ex by (auto simp: worker_Exec_def exec_result_def split: exec_out.splits)
    note wf = worker_Exec_frame[OF ex]
    show ?thesis
      using al ar Inr ex wf sp
      by (cases r; cases "kill_result env sw") (simp_all add: execDebug_def Let_def)
  qed
qed

lemma execDebugWithTTL_frame:
  "workers (snd (execDebugWithTTL env ctx p s)) = workers s \<and>
   container (snd (execDebugWithTTL env ctx p s)) = container s \<and>
   spawned (snd (execDebugWithTTL env ctx p s)) = Suc (spawned s) \<and>
   (\<exists>rest. trace (snd (execDebugWithTTL env ctx p s)) = trace s @ CallSpawn # rest \<and>
           CallSpawn \<notin> set rest)"
proof -
  obtain a s1 where al: "allocator env s = (a, s1)" by (cases "allocator env s")
  note ar = allocator_result[OF al, THEN conjunct2]
  show ?thesis
  proof (cases a)
    case (Inl e)
    with al ar show ?thesis by (simp add: execDebugWithTTL_def)
  next
    case (Inr sw)
    obtain r s2 where ex: "worker_ExecWithTTL env ctx sw p s1 = (r, s2)"
      by (cases "worker_ExecWithTTL env ctx sw p s1")
    have sp: "spawned s2 = spawned s1"
      using ex by (auto simp: worker_ExecWithTTL_def exec_result_def split: exec_out.splits)
    note wf = worker_ExecWithTTL_frame[OF ex]
    show ?thesis
      using al ar Inr ex wf sp
      by (cases "stop_result env sw") (simp_all add: execDebugWithTTL_def Let_def)
  qed
qed

text \<open>A pool in debug mode, as \<open>Initialize\<close> leaves it.\<close>

definition debug_cfg :: config where
  "debug_cfg = \<lparr>Debug = True, NumWorkers = 0, MaxJobs = 1, AllocateTimeout = 1200\<rparr>"

definition debug_world :: world where
  "debug_world = NewSyncWorkerWatcher demo_heap 0 1200"

text \<open>Collaborators as before, but every execution without a deadline fails with a
  soft error that leaves the worker's process alive and Ready.\<close>

definition soft_env :: env where
  "soft_env =
     demo_env\<lparr>exec_reply := (\<lambda>w n p. Failure (E0 ''sync_worker_exec'' SoftJob) StateReady)\<rparr>"

text \<open>
  Claim C7. In debug mode a request does not always end with its worker killed. On the
  debug pool, \<open>execWithTTL\<close> serves the payload on handle 10, fresh from the factory, and
  then calls \<^verbatim>\<open>Stop\<close> on it: \<^verbatim>\<open>Kill\<close> is not called and the worker is not set
  Destroyed. When the execution fails, \<open>Exec\<close> returns the error at once: the worker it
  has allocated is neither killed nor stopped, and nothing holds it any more, the cohort
  and the container being empty. When the execution succeeds, \<open>Exec\<close> does set the worker
  Destroyed and kill it.
\<close>

theorem debug_worker_not_killed:
  "Debug debug_cfg \<and>
   fst (execWithTTL debug_cfg demo_env 5 demo_payload debug_world) = Inr ok_reply \<and>
   trace (snd (execWithTTL debug_cfg demo_env 5 demo_payload debug_world)) =
     [CallSpawn, EventPush (PoolEvent EventWorkerConstruct (Some 10) None),
      CallExecTTL 10 demo_payload, CallStop 10] \<and>
   State_Value (snd (execWithTTL debug_cfg demo_env 5 demo_payload debug_world)) 10 =
     StateReady \<and>
   fst (Exec debug_cfg soft_env demo_payload debug_world) =
     Inl (E ''static_pool_exec_debug'' Undefined (E0 ''sync_worker_exec'' SoftJob)) \<and>
   trace (snd (Exec debug_cfg soft_env demo_payload debug_world)) =
     [CallSpawn, EventPush (PoolEvent EventWorkerConstruct (Some 10) None),
      CallExec 10 demo_payload] \<and>
   State_Value (snd (Exec debug_cfg soft_env demo_payload debug_world)) 10 = StateReady \<and>
   workers (snd (Exec debug_cfg soft_env demo_payload debug_world)) = [] \<and>
   container (snd (Exec debug_cfg soft_env demo_payload debug_world)) = [] \<and>
   fst (Exec debug_cfg demo_env demo_payload debug_world) = Inr ok_reply \<and>
   trace (snd (Exec debug_cfg demo_env demo_payload debug_world)) =
     [CallSpawn, EventPush (PoolEvent EventWorkerConstruct (Some 10) None),
      CallExec 10 demo_payload, CallKill 10] \<and>
   State_Value (snd (Exec debug_cfg demo_env demo_payload debug_world)) 10 = StateDestroyed"
  by (simp add: Exec.simps execDebug_def worker_Exec_def
      execWithTTL.simps execDebugWithTTL_def allocator_def worker_ExecWithTTL_def
      exec_result_def Let_def debug_cfg_def debug_world_def NewSyncWorkerWatcher_def
      demo_env_def soft_env_def demo_heap_def)

lemma Exec_debug: "Debug cfg \<Longrightarrow> Exec cfg env p s = execDebug env p s"
  by (subst Exec.simps) simp

lemma execWithTTL_debug:
  "Debug cfg \<Longrightarrow> execWithTTL cfg env ctx p s = execDebugWithTTL env ctx p s"
  by (subst execWithTTL.simps) simp

lemma allocator_Inr:
  "spawn env (spawned s) = Inr sw \<Longrightarrow>
     allocator env s =
       (Inr sw, events_Push (PoolEvent EventWorkerConstruct (Some sw) None)
                  ((record_call CallSpawn s)\<lparr>spawned := Suc (spawned s)\<rparr>))"
  by (simp add: allocator_def Let_def)

text \<open>
  What the debug path does in general. When the debug flag is set (after the defaults),
  \<open>Initialize\<close> keeps a configuration with \<open>num_workers = 0\<close> and \<open>max_jobs = 1\<close> and a
  watcher with an empty cohort and an empty container. With the flag set, \<open>Exec\<close> is
  \<open>execDebug\<close> and \<open>execWithTTL\<close> is \<open>execDebugWithTTL\<close>; each calls the allocator once,
  first, and leaves the cohort and the container as they were, so the worker is never
  pooled. When the allocator gives a worker: \<open>Exec\<close>, if the worker replies, sets it
  Destroyed and kills it; \<open>execWithTTL\<close> stops it, whatever the execution gave, and
  returns what the execution gave.
\<close>

lemma debug_single_use:
  "(Debug (InitDefaults cfg0) \<longrightarrow>
      Initialize env InitDefaults False h cfg0 =
        Inr ((InitDefaults cfg0)\<lparr>NumWorkers := 0, MaxJobs := 1\<rparr>,
             NewSyncWorkerWatcher h 0 (AllocateTimeout (InitDefaults cfg0))))
   \<and> (Debug cfg \<longrightarrow>
      Exec cfg env p s = execDebug env p s \<and>
      execWithTTL cfg env ctx p s = execDebugWithTTL env ctx p s \<and>
      workers (snd (Exec cfg env p s)) = workers s \<and>
      container (snd (Exec cfg env p s)) = container s \<and>
      spawned (snd (Exec cfg env p s)) = Suc (spawned s) \<and>
      workers (snd (execWithTTL cfg env ctx p s)) = workers s \<and>
      container (snd (execWithTTL cfg env ctx p s)) = container s \<and>
      spawned (snd (execWithTTL cfg env ctx p s)) = Suc (spawned s))
   \<and> (Debug cfg \<and> spawn env (spawned s) = Inr sw \<and>
       exec_reply env sw (NumExecs s sw) p = Reply r \<longrightarrow>
      trace (snd (Exec cfg env p s)) =
        trace s @ [CallSpawn, EventPush (PoolEvent EventWorkerConstruct (Some sw) None),
                   CallExec sw p, CallKill sw] @
          (case kill_result env sw of
             None \<Rightarrow> []
           | Some e \<Rightarrow> [EventPush (WorkerEvent EventWorkerError (Some sw) (Some e))]) \<and>
      State_Value (snd (Exec cfg env p s)) sw = StateDestroyed \<and>
      fst (Exec cfg env p s) =
        (case kill_result env sw of
           None \<Rightarrow> Inr r
         | Some e \<Rightarrow> Inl (E ''static_pool_exec_debug'' Undefined e)))
   \<and> (Debug cfg \<and> spawn env (spawned s) = Inr sw \<longrightarrow>
      trace (snd (execWithTTL cfg env ctx p s)) =
        trace s @ [CallSpawn, EventPush (PoolEvent EventWorkerConstruct (Some sw) None),
                   CallExecTTL sw p, CallStop sw] @
          (case stop_result env sw of
             None \<Rightarrow> []
           | Some stopErr \<Rightarrow>
               [EventPush (WorkerEvent EventWorkerError (Some sw)
                  (case exec_ttl_reply env ctx sw (NumExecs s sw) p of
                     Reply x \<Rightarrow> None
                   | Failure e st \<Rightarrow> Some e))]) \<and>
      fst (execWithTTL cfg env ctx p s) =
        (case exec_ttl_reply env ctx sw (NumExecs s sw) p of
           Reply x \<Rightarrow> Inr x
         | Failure e st \<Rightarrow> Inl e))"
proof (intro conjI impI)
  assume "Debug (InitDefaults cfg0)"
  then show "Initialize env InitDefaults False h cfg0 =
        Inr ((InitDefaults cfg0)\<lparr>NumWorkers := 0, MaxJobs := 1\<rparr>,
             NewSyncWorkerWatcher h 0 (AllocateTimeout (InitDefaults cfg0)))"
    by (simp add: Initialize_def Let_def)
next
  assume d: "Debug cfg"
  show "Exec cfg env p s = execDebug env p s" using d by (rule Exec_debug)
  show "execWithTTL cfg env ctx p s = execDebugWithTTL env ctx p s"
    using d by (rule execWithTTL_debug)
  show "workers (snd (Exec cfg env p s)) = workers s"
    using execDebug_frame[of env p s] by (simp add: Exec_debug[OF d])
  show "container (snd (Exec cfg env p s)) = container s"
    using execDebug_frame[of env p s] by (simp add: Exec_debug[OF d])
  show "spawned (snd (Exec cfg env p s)) = Suc (spawned s)"
    using execDebug_frame[of env p s] by (simp add: Exec_debug[OF d])
  show "workers (snd (execWithTTL cfg env ctx p s)) = workers s"
    using execDebugWithTTL_frame[of env ctx p s] by (simp add: execWithTTL_debug[OF d])
  show "container (snd (execWithTTL cfg env ctx p s)) = container s"
    using execDebugWithTTL_frame[of env ctx p s] by (simp add: execWithTTL_debug[OF d])
  show "spawned (snd (execWithTTL cfg env ctx p s)) = Suc (spawned s)"
    using execDebugWithTTL_frame[of env ctx p s] by (simp add: execWithTTL_debug[OF d])
next
  assume a: "Debug cfg \<and> spawn env (spawned s) = Inr sw \<and>
       exec_reply env sw (NumExecs s sw) p = Reply r"
  then have d: "Debug cfg" and sp: "spawn env (spawned s) = Inr sw"
    and rp: "exec_reply env sw (num_execs (heap s sw)) p = Reply r" by simp_all
  show "trace (snd (Exec cfg env p s)) =
        trace s @ [CallSpawn, EventPush (PoolEvent EventWorkerConstruct (Some sw) None),
                   CallExec sw p, CallKill sw] @
          (case kill_result env sw of
             None \<Rightarrow> []
           | Some e \<Rightarrow> [EventPush (WorkerEvent EventWorkerError (Some sw) (Some e))])"
    by (cases "kill_result env sw")
       (simp_all add: Exec_debug[OF d] execDebug_def allocator_Inr[OF sp] worker_Exec_def
         exec_result_def rp Let_def)
  show "State_Value (snd (Exec cfg env p s)) sw = StateDestroyed"
    by (cases "kill_result env sw")
       (simp_all add: Exec_debug[OF d] execDebug_def allocator_Inr[OF sp] worker_Exec_def
         exec_result_def rp Let_def)
  show "fst (Exec cfg env p s) =
        (case kill_result env sw of
           None \<Rightarrow> Inr r
         | Some e \<Rightarrow> Inl (E ''static_pool_exec_debug'' Undefined e))"
    by (cases "kill_result env sw")
       (simp_all add: Exec_debug[OF d] execDebug_def allocator_Inr[OF sp] worker_Exec_def
         exec_result_def rp Let_def)
next
  assume a: "Debug cfg \<and> spawn env (spawned s) = Inr sw"
  then have d: "Debug cfg" and sp: "spawn env (spawned s) = Inr sw" by simp_all
  show "trace (snd (execWithTTL cfg env ctx p s)) =
        trace s @ [CallSpawn, EventPush (PoolEvent EventWorkerConstruct (Some sw) None),
                   CallExecTTL sw p, CallStop sw] @
          (case stop_result env sw of
             None \<Rightarrow> []
           | Some stopErr \<Rightarrow>
               [EventPush (WorkerEvent EventWorkerError (Some sw)
                  (case exec_ttl_reply env ctx sw (NumExecs s sw) p of
                     Reply x \<Rightarrow> None
                   | Failure e st \<Rightarrow> Some e))])"
    by (cases "stop_result env sw"; cases "exec_ttl_reply env ctx sw (num_execs (heap s sw)) p")
       (simp_all add: execWithTTL_debug[OF d] execDebugWithTTL_def allocator_Inr[OF sp]
         worker_ExecWithTTL_def exec_result_def Let_def)
  show "fst (execWithTTL cfg env ctx p s) =
        (case exec_ttl_reply env ctx sw (NumExecs s sw) p of
           Reply x \<Rightarrow> Inr x
         | Failure e st \<Rightarrow> Inl e)"
    by (cases "stop_result env sw"; cases "exec_ttl_reply env ctx sw (num_execs (heap s sw)) p")
       (simp_all add: execWithTTL_debug[OF d] execDebugWithTTL_def allocator_Inr[OF sp]
         worker_ExecWithTTL_def exec_result_def Let_def)
qed

text \<open>A configuration with the debug flag and three workers asked for gives a pool with
  none; a request is served by handle 10, fresh from the factory, which is then killed
  (\<open>Exec\<close>) or stopped (\<open>execWithTTL\<close>), and the container stays empty.\<close>

lemma debug_single_use_on_debug_world:
  "Initialize demo_env (\<lambda>c. c) False demo_heap (demo_cfg\<lparr>Debug := True\<rparr>) =
     Inr (debug_cfg, debug_world) \<and>
   trace (snd (Exec debug_cfg demo_env demo_payload debug_world)) =
     [CallSpawn, EventPush (PoolEvent EventWorkerConstruct (Some 10) None),
      CallExec 10 demo_payload, CallKill 10] \<and>
   container (snd (Exec debug_cfg demo_env demo_payload debug_world)) = [] \<and>
   trace (snd (execWithTTL debug_cfg demo_env 5 demo_payload debug_world)) =
     [CallSpawn, EventPush (PoolEvent EventWorkerConstruct (Some 10) None),
      CallExecTTL 10 demo_payload, CallStop 10]"
proof -
  have h1: "Debug ((\<lambda>c. c) (demo_cfg\<lparr>Debug := True\<rparr>))" by simp
  have h2: "Debug debug_cfg" by (simp add: debug_cfg_def)
  have sp: "spawn demo_env (spawned debug_world) = Inr 10"
    by (simp add: demo_env_def debug_world_def NewSyncWorkerWatcher_def)
  have h3: "Debug debug_cfg \<and> spawn demo_env (spawned debug_world) = Inr 10 \<and>
       exec_reply demo_env 10 (NumExecs debug_world 10) demo_payload = Reply ok_reply"
    using h2 sp by (simp add: demo_env_def)
  have h4: "Debug debug_cfg \<and> spawn demo_env (spawned debug_world) = Inr 10"
    using h2 sp by simp
  have v: "trace debug_world = []" "container debug_world = []"
    "kill_result demo_env 10 = None" "stop_result demo_env 10 = None"
    by (simp_all add: debug_world_def NewSyncWorkerWatcher_def demo_env_def)
  have e: "(demo_cfg\<lparr>Debug := True\<rparr>)\<lparr>NumWorkers := 0, MaxJobs := 1\<rparr> = debug_cfg"
    "NewSyncWorkerWatcher demo_heap 0 (AllocateTimeout (demo_cfg\<lparr>Debug := True\<rparr>)) = debug_world"
    by (simp_all add: demo_cfg_def debug_cfg_def debug_world_def)
  from h1 debug_single_use[of "\<lambda>c. c" "demo_cfg\<lparr>Debug := True\<rparr>" demo_env demo_heap]
  have c1: "Initialize demo_env (\<lambda>c. c) False demo_heap (demo_cfg\<lparr>Debug := True\<rparr>) =
        Inr ((demo_cfg\<lparr>Debug := True\<rparr>)\<lparr>NumWorkers := 0, MaxJobs := 1\<rparr>,
             NewSyncWorkerWatcher demo_heap 0 (AllocateTimeout (demo_cfg\<lparr>Debug := True\<rparr>)))"
    by blast
  from h2 debug_single_use[of "\<lambda>c. c" demo_cfg demo_env demo_heap debug_cfg demo_payload
      debug_world 5 10 ok_reply]
  have c2: "container (snd (Exec debug_cfg demo_env demo_payload debug_world)) =
            container debug_world" by blast
  from h3 debug_single_use[of "\<lambda>c. c" demo_cfg demo_env demo_heap debug_cfg demo_payload
      debug_world 5 10 ok_reply]
  have c3: "trace (snd (Exec debug_cfg demo_env demo_payload debug_world)) =
        trace debug_world @ [CallSpawn, EventPush (PoolEvent EventWorkerConstruct (Some 10) None),
                   CallExec 10 demo_payload, CallKill 10] @
          (case kill_result demo_env 10 of
             None \<Rightarrow> []
           | Some e \<Rightarrow> [EventPush (WorkerEvent EventWorkerError (Some 10) (Some e))])"
    by blast
  from h4 debug_single_use[of "\<lambda>c. c" demo_cfg demo_env demo_heap debug_cfg demo_payload
      debug_world 5 10 ok_reply]
  have c4: "trace (snd (execWithTTL debug_cfg demo_env 5 demo_payload debug_world)) =
        trace debug_world @ [CallSpawn, EventPush (PoolEvent EventWorkerConstruct (Some 10) None),
                   CallExecTTL 10 demo_payload, CallStop 10] @
          (case stop_result demo_env 10 of
             None \<Rightarrow> []
           | Some stopErr \<Rightarrow>
               [EventPush (WorkerEvent EventWorkerError (Some 10)
                  (case exec_ttl_reply demo_env 5 10 (NumExecs debug_world 10) demo_payload of
                     Reply x \<Rightarrow> None
                   | Failure e st \<Rightarrow> Some e))])"
    by blast
  show ?thesis unfolding c1 c2 c3 c4 e v by simp
qed

section \<open>Properties of the wait task\<close>

text \<open>The state after the first two steps of \<open>wait\<close>: the event for an error of
  \<^verbatim>\<open>Wait\<close>, and \<open>Remove\<close>.\<close>

definition wait_removed :: "err option \<Rightarrow> wref \<Rightarrow> world \<Rightarrow> world" where
  "wait_removed werr w s =
     Remove w (case werr of
                 None \<Rightarrow> s
               | Some e \<Rightarrow> events_Push (WorkerEvent EventWorkerError (Some w)
                             (Some (E ''worker_watcher_wait'' Undefined e))) s)"

lemma Pid_events_Push [simp]: "Pid (events_Push ev s) = Pid s"
  by (simp add: fun_eq_iff)

lemma Remove_heap [simp]: "heap (Remove wb s) = heap s"
  by (simp add: Remove_def split: option.splits)

lemma wait_removed_heap [simp]: "heap (wait_removed werr w s) = heap s"
  by (simp add: wait_removed_def split: option.splits)

text \<open>
  What the task does when the mutex is free. It first removes the worker from the cohort
  (\<open>Remove\<close>). If the worker is in state Destroyed, the task pushes EventWorkerDestruct
  and returns: the allocator is not called and the worker's state is not touched.
  Otherwise the task sets the worker Stopped and calls \<open>Allocate\<close>. If that succeeds the
  task returns. If it fails, the task pushes EventWorkerProcessExit, and then panics with
  a WorkerAllocate error exactly when the cohort is empty and \<open>numWorkers\<close> is 0; else it
  returns.
\<close>

lemma wait_with_mutex_free:
  assumes nl: "\<not> locked s"
  shows "workers (wait_removed werr w s) = workers (Remove w s)
   \<and> (State_Value s w = StateDestroyed \<longrightarrow>
      wait env werr w s =
        (Returned, events_Push (PoolEvent EventWorkerDestruct (Some w) None)
                     (wait_removed werr w s)) \<and>
      spawned (snd (wait env werr w s)) = spawned s \<and>
      heap (snd (wait env werr w s)) = heap s)
   \<and> (State_Value s w \<noteq> StateDestroyed \<and>
       fst (Allocate env (State_Set w StateStopped (wait_removed werr w s))) = None \<longrightarrow>
      wait env werr w s =
        (Returned, snd (Allocate env (State_Set w StateStopped (wait_removed werr w s)))))
   \<and> (State_Value s w \<noteq> StateDestroyed \<and>
       Allocate env (State_Set w StateStopped (wait_removed werr w s)) = (Some e, s4) \<longrightarrow>
      fst (wait env werr w s) =
        (if length (workers s4) = 0 \<and> numWorkers s4 = 0
         then Panic (E ''worker_watcher_wait'' WorkerAllocate
                (Errorf ''can't allocate workers: %v'' [e]))
         else Returned) \<and>
      Is WorkerAllocate (E ''worker_watcher_wait'' WorkerAllocate
                (Errorf ''can't allocate workers: %v'' [e])) \<and>
      snd (wait env werr w s) =
        events_Push (PoolEvent EventWorkerProcessExit None
          (Some (E ''worker_watcher_wait'' Undefined e))) s4)"
proof (intro conjI impI)
  show "workers (wait_removed werr w s) = workers (Remove w s)"
    by (cases werr; cases "remove_loop (Pid s) (pid (heap s w)) (workers s)")
       (simp_all add: wait_removed_def Remove_def)
next
  assume d: "State_Value s w = StateDestroyed"
  then show r: "wait env werr w s =
        (Returned, events_Push (PoolEvent EventWorkerDestruct (Some w) None)
                     (wait_removed werr w s))"
    using nl by (cases werr) (simp_all add: wait_def wait_removed_def Remove_locking_def Let_def)
  show "spawned (snd (wait env werr w s)) = spawned s"
    by (simp add: r wait_removed_def Remove_def split: option.splits)
  show "heap (snd (wait env werr w s)) = heap s"
    by (simp add: r)
next
  assume a: "State_Value s w \<noteq> StateDestroyed \<and>
       fst (Allocate env (State_Set w StateStopped (wait_removed werr w s))) = None"
  then show "wait env werr w s =
        (Returned, snd (Allocate env (State_Set w StateStopped (wait_removed werr w s))))"
    using nl
    by (cases "Allocate env (State_Set w StateStopped (wait_removed werr w s))"; cases werr)
       (simp_all add: wait_def wait_removed_def Remove_locking_def Let_def)
next
  assume a: "State_Value s w \<noteq> StateDestroyed \<and>
       Allocate env (State_Set w StateStopped (wait_removed werr w s)) = (Some e, s4)"
  then have r: "wait env werr w s =
      (let s5 = events_Push (PoolEvent EventWorkerProcessExit None
                   (Some (E ''worker_watcher_wait'' Undefined e))) s4
       in if length (workers s5) = 0 \<and> numWorkers s5 = 0 then
            (Panic (E ''worker_watcher_wait'' WorkerAllocate
               (Errorf ''can't allocate workers: %v'' [e])), s5)
          else (Returned, s5))"
    using nl by (cases werr) (simp_all add: wait_def wait_removed_def Remove_locking_def Let_def)
  show "fst (wait env werr w s) =
        (if length (workers s4) = 0 \<and> numWorkers s4 = 0
         then Panic (E ''worker_watcher_wait'' WorkerAllocate
                (Errorf ''can't allocate workers: %v'' [e]))
         else Returned)"
    by (simp add: r Let_def)
  show "Is WorkerAllocate (E ''worker_watcher_wait'' WorkerAllocate
                (Errorf ''can't allocate workers: %v'' [e]))" by simp
  show "snd (wait env werr w s) =
        events_Push (PoolEvent EventWorkerProcessExit None
          (Some (E ''worker_watcher_wait'' Undefined e))) s4"
    by (simp add: r Let_def)
qed

text \<open>A pool whose only worker is handle 2. With the factory of the demo world, handle
  10 replaces an exited handle 2. With a factory that cannot start a worker, the task
  panics when handle 2 was the only worker and the allocate timeout has taken
  \<open>numWorkers\<close> to 0, and returns when two other workers are left. With no allocate
  timeout \<open>numWorkers\<close> stays at 1 and the task returns, leaving a pool with no worker.\<close>

definition lone_world :: world where
  "lone_world = demo_world\<lparr>workers := [2], numWorkers := 1\<rparr>"

lemma wait_on_demo_worlds:
  "wait demo_env None 2 demo_world =
     (Returned, snd (Allocate demo_env (State_Set 2 StateStopped (Remove 2 demo_world)))) \<and>
   workers (snd (wait demo_env None 2 demo_world)) = [1, 3, 10] \<and>
   fst (wait failing_env None 2 lone_world) =
     Panic (E ''worker_watcher_wait'' WorkerAllocate
       (Errorf ''can't allocate workers: %v''
          [E ''worker_watcher_allocate_new'' WorkerAllocate (Str ''spawn failed'')])) \<and>
   fst (wait failing_env None 2 demo_world) = Returned \<and>
   workers (snd (wait failing_env None 2 demo_world)) = [1, 3] \<and>
   fst (wait failing_env None 2 (lone_world\<lparr>allocateTimeout := 0\<rparr>)) = Returned \<and>
   workers (snd (wait failing_env None 2 (lone_world\<lparr>allocateTimeout := 0\<rparr>))) = [] \<and>
   numWorkers (snd (wait failing_env None 2 (lone_world\<lparr>allocateTimeout := 0\<rparr>))) = 1"
  by (simp add: wait_def Remove_locking_def Remove_def Allocate_def allocator_def Let_def
      failing_env_def demo_env_def lone_world_def demo_world_def demo_heap_def
      Allocate_retry.simps timer_fires_def)

text \<open>What \<open>Destroy\<close> returns is a state some tick found, with the mutex taken and the
  cohort destroyed.\<close>

lemma Destroy_loop_returns:
  "Destroy_loop fs t s = Some (s', t') \<Longrightarrow>
     \<exists>s0. s' = Destroy_workers (workers s0) (s0\<lparr>locked := True\<rparr>)"
proof (induction fs arbitrary: t s)
  case Nil
  then show ?case by (auto simp: Destroy_tick_def split: if_splits)
next
  case (Cons f fs)
  show ?case
  proof (cases "Destroy_tick (f s)")
    case None
    with Cons.prems have "Destroy_loop fs (t + Destroy_period) (f s) = Some (s', t')" by simp
    then show ?thesis by (rule Cons.IH)
  next
    case (Some r)
    with Cons.prems have "r = s'" by simp
    with Some show ?thesis by (auto simp: Destroy_tick_def split: if_splits)
  qed
qed

text \<open>
  Claim C8. The wait task of a worker that \<open>Destroy\<close> has destroyed does not remove it
  from the cohort and does not emit EventWorkerDestruct. In a state \<open>Destroy\<close> has
  returned, the mutex is held and every member of the cohort is in state Destroyed; the
  wait task of any worker, run from that state, stops at the \<^verbatim>\<open>ww.Lock()\<close> of
  \<open>Remove\<close>: with no error from \<^verbatim>\<open>Wait\<close> the state is untouched, with an error \<open>e\<close> the
  event for it has been pushed and nothing else has happened.
\<close>

theorem wait_blocks_after_Destroy:
  "Destroy ctx_cancelled others s = Some (s', t) \<longrightarrow>
     locked s' \<and>
     (\<forall>v \<in> set (workers s'). State_Value s' v = StateDestroyed) \<and>
     wait env None w s' = (Blocked, s') \<and>
     wait env (Some e) w s' =
       (Blocked, events_Push (WorkerEvent EventWorkerError (Some w)
                   (Some (E ''worker_watcher_wait'' Undefined e))) s')"
proof
  assume "Destroy ctx_cancelled others s = Some (s', t)"
  then have "Destroy_loop others 0 (container_Destroy s) = Some (s', t)"
    by (simp add: Destroy_def)
  then obtain s0 where r: "s' = Destroy_workers (workers s0) (s0\<lparr>locked := True\<rparr>)"
    by (blast dest: Destroy_loop_returns)
  have l: "locked s'" by (simp add: r)
  have d: "\<forall>v \<in> set (workers s'). State_Value s' v = StateDestroyed"
    unfolding r by (simp add: Destroy_workers_state del: State_Value_def)
  have n: "wait env None w s' = (Blocked, s')"
    using l by (simp add: wait_def Remove_locking_def)
  have e: "wait env (Some e) w s' =
       (Blocked, events_Push (WorkerEvent EventWorkerError (Some w)
                   (Some (E ''worker_watcher_wait'' Undefined e))) s')"
    using l by (simp add: wait_def Remove_locking_def)
  from l d n e show "locked s' \<and>
     (\<forall>v \<in> set (workers s'). State_Value s' v = StateDestroyed) \<and>
     wait env None w s' = (Blocked, s') \<and>
     wait env (Some e) w s' =
       (Blocked, events_Push (WorkerEvent EventWorkerError (Some w)
                   (Some (E ''worker_watcher_wait'' Undefined e))) s')"
    by blast
qed

text \<open>The state \<open>Destroy\<close> returns from the busy world: the second tick finds the three
  workers in the cohort, takes the mutex and destroys them.\<close>

definition destroyed_world :: world where
  "destroyed_world =
     Destroy_workers [1, 2, 3]
       ((container_Destroy busy_world)\<lparr>workers := [1, 2, 3], locked := True\<rparr>)"

lemma busy_world_Destroy:
  "Destroy True busy_others busy_world = Some (destroyed_world, 200)"
  by (simp add: Destroy_def Destroy_tick_def Destroy_period_def busy_others_def
      busy_world_def demo_world_def container_Destroy_def record_call_def destroyed_world_def)

text \<open>After that \<open>Destroy\<close>, handle 1 is Destroyed and in the cohort, and its wait task
  leaves everything as it is: the cohort, and a trace with no EventWorkerDestruct.\<close>

theorem wait_blocks_after_Destroy_witness:
  "Destroy True busy_others busy_world = Some (destroyed_world, 200) \<and>
   State_Value destroyed_world 1 = StateDestroyed \<and>
   wait demo_env None 1 destroyed_world = (Blocked, destroyed_world) \<and>
   workers destroyed_world = [1, 2, 3] \<and>
   trace destroyed_world = [CallDestroy, CallKill 1, CallKill 2, CallKill 3]"
proof -
  from busy_world_Destroy
    wait_blocks_after_Destroy[where ctx_cancelled = True and others = busy_others
      and s = busy_world and s' = destroyed_world and t = 200 and env = demo_env and w = 1]
  have c: "(\<forall>v \<in> set (workers destroyed_world). State_Value destroyed_world v = StateDestroyed) \<and>
     wait demo_env None 1 destroyed_world = (Blocked, destroyed_world)"
    by blast
  have w: "workers destroyed_world = [1, 2, 3]"
    "trace destroyed_world = [CallDestroy, CallKill 1, CallKill 2, CallKill 3]"
    by (simp_all add: destroyed_world_def container_Destroy_def record_call_def
        busy_world_def demo_world_def)
  from c w have "State_Value destroyed_world 1 = StateDestroyed" by (simp del: State_Value_def)
  with c w busy_world_Destroy show ?thesis by blast
qed

section \<open>The job quota\<close>

text \<open>Every worker waiting in the container has run fewer than \<open>k\<close> payloads, and no
  handle waits there twice.\<close>

definition within_quota :: "64 word \<Rightarrow> world \<Rightarrow> bool" where
  "within_quota k s =
     (distinct (container s) \<and> (\<forall>x\<in>set (container s). NumExecs s x < k))"

lemma within_quota_frame:
  "Take_frame s s1 \<Longrightarrow> within_quota k s \<Longrightarrow> within_quota k s1"
  by (auto simp: Take_frame_def within_quota_def)

lemma within_quota_cong:
  "container s' = container s \<Longrightarrow> (\<forall>x\<in>set (container s). num_execs (heap s' x) = num_execs (heap s x)) \<Longrightarrow>
     within_quota k s \<Longrightarrow> within_quota k s'"
  by (simp add: within_quota_def)

lemma within_quota_push:
  "container s' = container s @ [w] \<Longrightarrow> (\<forall>x. num_execs (heap s' x) = num_execs (heap s x)) \<Longrightarrow>
   w \<notin> set (container s) \<Longrightarrow> num_execs (heap s w) < k \<Longrightarrow>
     within_quota k s \<Longrightarrow> within_quota k s'"
  by (simp add: within_quota_def)

lemma takeWorker_Inl_frame:
  assumes "takeWorker ctx op' s = (Inl e, s')"
  shows "heap s' = heap s \<and> set (container s') \<subseteq> set (container s) \<and>
         (distinct (container s) \<longrightarrow> distinct (container s'))"
proof -
  obtain y s0 where tk: "Take ctx s = (y, s0)" by (cases "Take ctx s")
  from Take_frame_gives[OF tk] have f: "Take_frame s s0" by simp
  from assms tk have "heap s' = heap s0 \<and> container s' = container s0"
    by (cases y) (auto simp: takeWorker_def split: if_splits)
  with f show ?thesis by (simp add: Take_frame_def)
qed

lemma worker_Exec_Inl:
  "worker_Exec env w p s = (Inl e, s') \<Longrightarrow>
     container s' = container s \<and> (\<forall>x. num_execs (heap s' x) = num_execs (heap s x))"
  by (auto simp: worker_Exec_def exec_result_def split: exec_out.splits)

lemma defaultErrEncoder_quota:
  assumes q: "within_quota k s" and w: "w \<notin> set (container s)"
    and n: "MaxJobs cfg = k" "k \<noteq> 0"
  shows "within_quota k (snd (defaultErrEncoder cfg env e w s)) \<and>
         (\<forall>x. num_execs (heap (snd (defaultErrEncoder cfg env e w s)) x) = num_execs (heap s x))"
proof -
  let ?ev = "events_Push (WorkerEvent EventWorkerError (Some w)
                    (Some (E ''error_encoder'' Undefined e))) s"
  consider (ttl) "Is ExecTTL e"
    | (soft_max) "\<not> Is ExecTTL e" "Is SoftJob e" "num_execs (heap s w) \<ge> k"
    | (soft) "\<not> Is ExecTTL e" "Is SoftJob e" "\<not> num_execs (heap s w) \<ge> k"
    | (net) "\<not> Is ExecTTL e" "\<not> Is SoftJob e" "Is Network e"
    | (other) "\<not> Is ExecTTL e" "\<not> Is SoftJob e" "\<not> Is Network e"
    by blast
  then show ?thesis
  proof cases
    case ttl
    then have "snd (defaultErrEncoder cfg env e w s) =
        State_Set w StateInvalid (events_Push (PoolEvent EventExecTTL None
                    (Some (E ''error_encoder'' Undefined e))) s)"
      by (simp add: defaultErrEncoder_def Let_def)
    with q show ?thesis by (simp add: within_quota_def)
  next
    case soft_max
    with n have "snd (defaultErrEncoder cfg env e w s) = Stop w (State_Set w StateInvalid ?ev)"
      by (cases "stop_result env w") (simp_all add: defaultErrEncoder_def Let_def)
    with q show ?thesis by (simp add: within_quota_def)
  next
    case soft
    with n have r: "snd (defaultErrEncoder cfg env e w s) = Release w ?ev"
      by (simp add: defaultErrEncoder_def Let_def)
    from soft have lt: "num_execs (heap s w) < k" by simp
    show ?thesis
      using q w lt by (simp add: r within_quota_def)
  next
    case net
    then have "snd (defaultErrEncoder cfg env e w s) =
        Kill w (events_Push (WorkerEvent EventWorkerError (Some w)
                     (Some (E ''error_encoder'' Undefined e))) (State_Set w StateInvalid s))"
      by (simp add: defaultErrEncoder_def Let_def)
    with q show ?thesis by (simp add: within_quota_def)
  next
    case other
    then have "snd (defaultErrEncoder cfg env e w s) =
        Stop w (events_Push (PoolEvent EventWorkerDestruct (Some w) None)
                 (State_Set w StateInvalid s))"
      by (cases "stop_result env w") (simp_all add: defaultErrEncoder_def Let_def)
    with q show ?thesis by (simp add: within_quota_def)
  qed
qed

lemma checkMaxJobs_quota:
  assumes q: "within_quota k s" and w: "w \<notin> set (container s)"
    and n: "MaxJobs cfg = k"
  shows "within_quota k (checkMaxJobs cfg w s) \<and>
         (\<forall>x. num_execs (heap (checkMaxJobs cfg w s) x) = num_execs (heap s x))"
proof (cases "num_execs (heap s w) \<ge> k")
  case True
  with n have "checkMaxJobs cfg w s = Release w (State_Set w StateMaxJobsReached s)"
    by (simp add: checkMaxJobs_def)
  with q show ?thesis by (simp add: within_quota_def)
next
  case False
  with n have r: "checkMaxJobs cfg w s = Release w s" by (simp add: checkMaxJobs_def)
  from False have "num_execs (heap s w) < k" by simp
  with q w show ?thesis by (simp add: r within_quota_def)
qed

lemma Exec_quota:
  "\<not> Debug cfg \<Longrightarrow> MaxJobs cfg = k \<Longrightarrow> k \<noteq> 0 \<Longrightarrow> within_quota k s \<Longrightarrow>
     within_quota k (snd (Exec cfg env p s)) \<and>
     (\<forall>x. NumExecs s x \<le> k \<longrightarrow> NumExecs (snd (Exec cfg env p s)) x \<le> k)"
proof (induction cfg env p s rule: Exec.induct)
  case (1 cfg env p s)
  note nd = \<open>\<not> Debug cfg\<close> and mk = \<open>MaxJobs cfg = k\<close> and k0 = \<open>k \<noteq> 0\<close>
    and q = \<open>within_quota k s\<close>
  obtain a s1 where
    tw: "takeWorker (pops_within env (AllocateTimeout cfg)) ''static_pool_exec'' s = (a, s1)"
    by (cases "takeWorker (pops_within env (AllocateTimeout cfg)) ''static_pool_exec'' s")
  show ?case
  proof (cases a)
    case (Inl e)
    with nd tw have r: "Exec cfg env p s = (Inl (E ''static_pool_exec'' Undefined e), s1)"
      by (subst Exec.simps) simp
    from takeWorker_Inl_frame[OF tw[unfolded Inl]] q
    have "within_quota k s1" and "heap s1 = heap s"
      by (auto simp: within_quota_def)
    then show ?thesis by (simp add: r)
  next
    case (Inr w)
    note aw = \<open>a = Inr w\<close>
    note tw' = tw[unfolded Inr]
    from takeWorker_frame[OF tw'] have fr: "Take_frame s s1" and gv: "Take_gives s w s1"
      by simp_all
    have q1: "within_quota k s1" using fr q by (rule within_quota_frame)
    have h1: "heap s1 = heap s" using fr by (simp add: Take_frame_def)
    have w1: "w \<notin> set (container s1)" using gv q by (simp add: Take_gives_def within_quota_def)
    have lt: "num_execs (heap s w) < k" using gv q by (simp add: Take_gives_def within_quota_def)
    obtain b s2 where ex: "worker_Exec env w p s1 = (b, s2)"
      by (cases "worker_Exec env w p s1")
    show ?thesis
    proof (cases b)
      case (Inl e)
      note ex' = ex[unfolded Inl]
      from nd tw' ex' have r: "Exec cfg env p s = defaultErrEncoder cfg env e w s2"
        by (subst Exec.simps) simp
      from worker_Exec_Inl[OF ex'] have c2: "container s2 = container s1"
        and n2: "\<forall>x. num_execs (heap s2 x) = num_execs (heap s1 x)" by simp_all
      have q2: "within_quota k s2" using c2 n2 q1 by (simp add: within_quota_def)
      have w2: "w \<notin> set (container s2)" using c2 w1 by simp
      from defaultErrEncoder_quota[OF q2 w2 mk k0, of env e] n2 h1
      show ?thesis by (simp add: r)
    next
      case (Inr rsp)
      note ex' = ex[unfolded Inr]
      from worker_Exec_Inr[OF ex'] worker_Exec_container[OF ex']
      have c2: "container s2 = container s1"
        and d2: "destroy s2 = destroy s1"
        and st: "state (heap s2 w) = StateReady"
        and nw: "num_execs (heap s2 w) = num_execs (heap s1 w) + 1"
        and ot: "\<forall>x. x \<noteq> w \<longrightarrow> heap s2 x = heap s1 x" by simp_all
      have le: "num_execs (heap s2 w) \<le> k" using lt nw h1 by (simp add: inc_le)
      have q2: "within_quota k s2"
        using q1 w1 c2 ot by (auto simp: within_quota_def)
      have w2: "w \<notin> set (container s2)" using c2 w1 by simp
      have b2: "\<forall>x. num_execs (heap s x) \<le> k \<longrightarrow> num_execs (heap s2 x) \<le> k"
      proof (intro allI impI)
        fix x assume "num_execs (heap s x) \<le> k"
        then show "num_execs (heap s2 x) \<le> k"
          using le ot h1 by (cases "x = w") simp_all
      qed
      show ?thesis
      proof (cases "Body rsp = [] \<and> Context rsp = StopRequest")
        case True
        from Exec_taken[OF nd tw' ex'] True
        have r: "Exec cfg env p s = Exec cfg env p (stopWorker env w s2)" by simp
        have q3: "within_quota k (stopWorker env w s2)"
          using q2 by (simp add: within_quota_def)
        have sent: "length (Body rsp) = 0 \<and> Context rsp = StopRequest" using True by simp
        from "1.IH"[OF nd tw[symmetric] aw ex[symmetric] \<open>b = Inr rsp\<close> sent nd mk k0 q3]
        have ih: "within_quota k (snd (Exec cfg env p (stopWorker env w s2)))"
          and ib: "\<forall>x. num_execs (heap (stopWorker env w s2) x) \<le> k \<longrightarrow>
                    num_execs (heap (snd (Exec cfg env p (stopWorker env w s2))) x) \<le> k"
          by simp_all
        have "\<forall>x. num_execs (heap s x) \<le> k \<longrightarrow>
                num_execs (heap (snd (Exec cfg env p (stopWorker env w s2))) x) \<le> k"
        proof (intro allI impI)
          fix x assume "num_execs (heap s x) \<le> k"
          with b2 have "num_execs (heap s2 x) \<le> k" by blast
          then have "num_execs (heap (stopWorker env w s2) x) \<le> k" by auto
          with ib show "num_execs (heap (snd (Exec cfg env p (stopWorker env w s2))) x) \<le> k"
            by blast
        qed
        with ih show ?thesis by (simp add: r)
      next
        case False
        from Exec_taken[OF nd tw' ex'] False mk k0
        have r: "Exec cfg env p s = (Inr rsp, checkMaxJobs cfg w s2)" by simp
        from checkMaxJobs_quota[OF q2 w2 mk] b2
        show ?thesis by (simp add: r)
      qed
    qed
  qed
qed

text \<open>
  Claim C3. With \<open>max_jobs = k > 0\<close>, off the debug path: after a worker taken has
  replied with something other than the stop request, \<open>Exec\<close> returns the reply and has
  run \<open>checkMaxJobs\<close>. If the worker has by now run \<open>k\<close> payloads or more, it is set
  to MaxJobsReached and released, and the release kills it: it is not pushed. Otherwise
  it is released as it is, Ready, and the release pushes it into the container.
  Consequently, whatever \<open>Exec\<close> does (replies, errors, stop requests met on the way): if
  no worker waiting in the container has run \<open>k\<close> payloads, the same holds afterwards, and
  no worker that had run at most \<open>k\<close> payloads has then run more than \<open>k\<close>.
\<close>

theorem checkMaxJobs_rotation:
  assumes "\<not> Debug cfg" and "MaxJobs cfg = k" and "0 < k"
  shows
   "(takeWorker (pops_within env (AllocateTimeout cfg)) ''static_pool_exec'' s = (Inr w, s1) \<and>
     worker_Exec env w p s1 = (Inr rsp, s2) \<and>
     \<not> (Body rsp = [] \<and> Context rsp = StopRequest) \<longrightarrow>
       fst (Exec cfg env p s) = Inr rsp \<and>
       snd (Exec cfg env p s) = checkMaxJobs cfg w s2 \<and>
       (NumExecs s2 w \<ge> k \<longrightarrow>
          State_Value (snd (Exec cfg env p s)) w = StateMaxJobsReached \<and>
          trace (snd (Exec cfg env p s)) = trace s2 @ [CallRelease w, CallKill w] \<and>
          container (snd (Exec cfg env p s)) = container s2) \<and>
       (NumExecs s2 w < k \<longrightarrow>
          State_Value (snd (Exec cfg env p s)) w = StateReady \<and>
          trace (snd (Exec cfg env p s)) =
            trace s2 @ CallRelease w #
              (if destroy s2 then [CallPush w, CallKill w] else [CallPush w]) \<and>
          container (snd (Exec cfg env p s)) =
            (if destroy s2 then container s2 else container s2 @ [w])))
    \<and> (within_quota k s \<longrightarrow>
         within_quota k (snd (Exec cfg env p s)) \<and>
         (\<forall>x. NumExecs s x \<le> k \<longrightarrow> NumExecs (snd (Exec cfg env p s)) x \<le> k))"
proof (intro conjI impI)
  assume a: "takeWorker (pops_within env (AllocateTimeout cfg)) ''static_pool_exec'' s = (Inr w, s1) \<and>
     worker_Exec env w p s1 = (Inr rsp, s2) \<and>
     \<not> (Body rsp = [] \<and> Context rsp = StopRequest)"
  then have tw: "takeWorker (pops_within env (AllocateTimeout cfg)) ''static_pool_exec'' s = (Inr w, s1)"
    and ex: "worker_Exec env w p s1 = (Inr rsp, s2)"
    and ns: "\<not> (Body rsp = [] \<and> Context rsp = StopRequest)" by simp_all
  have k0: "MaxJobs cfg \<noteq> 0" using assms(2,3) by simp
  from Exec_taken[OF assms(1) tw ex] ns k0
  have r: "Exec cfg env p s = (Inr rsp, checkMaxJobs cfg w s2)" by simp
  from worker_Exec_Inr[OF ex] have st: "state (heap s2 w) = StateReady" by simp
  show "fst (Exec cfg env p s) = Inr rsp" by (simp add: r)
  show "snd (Exec cfg env p s) = checkMaxJobs cfg w s2" by (simp add: r)
  show "State_Value (snd (Exec cfg env p s)) w = StateMaxJobsReached" if "NumExecs s2 w \<ge> k"
    using that assms(2) by (simp add: r checkMaxJobs_def)
  show "trace (snd (Exec cfg env p s)) = trace s2 @ [CallRelease w, CallKill w]"
    if "NumExecs s2 w \<ge> k"
    using that assms(2) by (simp add: r checkMaxJobs_def)
  show "container (snd (Exec cfg env p s)) = container s2" if "NumExecs s2 w \<ge> k"
    using that assms(2) by (simp add: r checkMaxJobs_def)
  show "State_Value (snd (Exec cfg env p s)) w = StateReady" if "NumExecs s2 w < k"
    using that assms(2) st by (simp add: r checkMaxJobs_def leD)
  show "trace (snd (Exec cfg env p s)) =
            trace s2 @ CallRelease w #
              (if destroy s2 then [CallPush w, CallKill w] else [CallPush w])"
    if "NumExecs s2 w < k"
    using that assms(2) st by (simp add: r checkMaxJobs_def leD)
  show "container (snd (Exec cfg env p s)) =
            (if destroy s2 then container s2 else container s2 @ [w])"
    if "NumExecs s2 w < k"
    using that assms(2) st by (auto simp: r checkMaxJobs_def)
next
  assume q: "within_quota k s"
  have k0: "k \<noteq> 0" using assms(3) by simp
  from Exec_quota[OF assms(1,2) k0 q, of env p]
  show "within_quota k (snd (Exec cfg env p s))"
    and "\<forall>x. NumExecs s x \<le> k \<longrightarrow> NumExecs (snd (Exec cfg env p s)) x \<le> k"
    by simp_all
qed

lemma demo_take_only_3:
  "takeWorker (pops_within demo_env (AllocateTimeout demo_cfg)) ''static_pool_exec''
      (demo_world\<lparr>container := [3]\<rparr>) = (Inr 3, demo_world\<lparr>container := []\<rparr>)"
  by (simp add: takeWorker_def Take_def container_Pop_def demo_env_def demo_cfg_def
      demo_world_def demo_heap_def)

text \<open>With \<open>max_jobs = 3\<close>: handle 2, with three executions behind it, serves a fourth
  time and is then retired, not pushed; handle 3 serves for the first time and is pushed
  back, and the container is still within the quota.\<close>

theorem checkMaxJobs_rotation_witness:
  "State_Value (snd (Exec demo_cfg demo_env demo_payload (demo_world\<lparr>container := [2, 3]\<rparr>))) 2 =
     StateMaxJobsReached \<and>
   container (snd (Exec demo_cfg demo_env demo_payload (demo_world\<lparr>container := [2, 3]\<rparr>))) = [3] \<and>
   container (snd (Exec demo_cfg demo_env demo_payload (demo_world\<lparr>container := [3]\<rparr>))) = [3] \<and>
   within_quota 3 (snd (Exec demo_cfg demo_env demo_payload (demo_world\<lparr>container := [3]\<rparr>)))"
proof -
  let ?w2 = "demo_world\<lparr>container := [2, 3]\<rparr>"
  let ?w3 = "demo_world\<lparr>container := [3]\<rparr>"
  let ?w4 = "demo_world\<lparr>container := []\<rparr>"
  let ?a = "snd (worker_Exec demo_env 2 demo_payload ?w3)"
  let ?b = "snd (worker_Exec demo_env 3 demo_payload ?w4)"
  have d: "\<not> Debug demo_cfg" and m: "MaxJobs demo_cfg = 3" and k: "(0::64 word) < 3"
    by (simp_all add: demo_cfg_def)
  have ns: "\<not> (Body ok_reply = [] \<and> Context ok_reply = StopRequest)"
    by (simp add: ok_reply_def)
  have e2: "worker_Exec demo_env 2 demo_payload ?w3 = (Inr ok_reply, ?a)"
    by (simp add: worker_Exec_def exec_result_def demo_env_def)
  have e3: "worker_Exec demo_env 3 demo_payload ?w4 = (Inr ok_reply, ?b)"
    by (simp add: worker_Exec_def exec_result_def demo_env_def)
  have va: "NumExecs ?a 2 \<ge> 3" "container ?a = [3]"
    by (simp_all add: worker_Exec_def exec_result_def demo_env_def demo_world_def demo_heap_def)
  have vb: "NumExecs ?b 3 < 3" "container ?b = []" "\<not> destroy ?b"
    by (simp_all add: worker_Exec_def exec_result_def demo_env_def demo_world_def demo_heap_def)
  have q: "within_quota 3 ?w3"
    by (simp add: within_quota_def demo_world_def demo_heap_def)
  from checkMaxJobs_rotation[OF d m k, of demo_env ?w2 2 ?w3 demo_payload ok_reply ?a]
    demo_take_from_2 e2 ns va(1)
  have c1: "State_Value (snd (Exec demo_cfg demo_env demo_payload ?w2)) 2 = StateMaxJobsReached"
    and c2: "container (snd (Exec demo_cfg demo_env demo_payload ?w2)) = container ?a"
    by blast+
  from checkMaxJobs_rotation[OF d m k, of demo_env ?w3 3 ?w4 demo_payload ok_reply ?b]
    demo_take_only_3 e3 ns vb(1)
  have c3: "container (snd (Exec demo_cfg demo_env demo_payload ?w3)) =
            (if destroy ?b then container ?b else container ?b @ [3])"
    by blast
  from checkMaxJobs_rotation[OF d m k, of demo_env ?w3 3 ?w4 demo_payload ok_reply ?b] q
  have c4: "within_quota 3 (snd (Exec demo_cfg demo_env demo_payload ?w3))"
    by blast
  show ?thesis using c1 c2 c3 c4 va(2) vb(2,3) by simp
qed

end
